theory Spec2Isabelle
  imports Main
begin

section \<open>Switch enumerations (src/utils.py)\<close>

text \<open>
  The switches are Python enumerations whose \<open>__str__\<close> is the member's name
  (\<open>ConvertableEnum.__str__\<close>). Each enumeration is a datatype, and its \<open>__str__\<close> a
  function to strings.
\<close>

datatype ModelSwitch =
    SIMPLE_CNN_DEPTH | SIMPLE_CNN | SIMPLE_CNN_BN | SIMPLE_CNN_SK | SIMPLE_CNN_SK_BN
  | RESNET18 | RESNET34 | RESNET50 | RESNET_BASIC | RESNET_BOTTLENECK

datatype ActivationSwitch =
    SOFTPLUS_B_01 | SOFTPLUS_B_1 | SOFTPLUS_B_2 | SOFTPLUS_B100 | SOFTPLUS_B10
  | SOFTPLUS_B7 | SOFTPLUS_B5 | SOFTPLUS_B3 | SOFTPLUS_B1 | LEAKY_RELU | RELU

datatype DatasetSwitch = CIFAR10 | MNIST | IMAGENETTE | FASHION_MNIST | GRADS

fun str_ModelSwitch :: "ModelSwitch \<Rightarrow> string" where
  "str_ModelSwitch SIMPLE_CNN_DEPTH = ''SIMPLE_CNN_DEPTH''"
| "str_ModelSwitch SIMPLE_CNN = ''SIMPLE_CNN''"
| "str_ModelSwitch SIMPLE_CNN_BN = ''SIMPLE_CNN_BN''"
| "str_ModelSwitch SIMPLE_CNN_SK = ''SIMPLE_CNN_SK''"
| "str_ModelSwitch SIMPLE_CNN_SK_BN = ''SIMPLE_CNN_SK_BN''"
| "str_ModelSwitch RESNET18 = ''RESNET18''"
| "str_ModelSwitch RESNET34 = ''RESNET34''"
| "str_ModelSwitch RESNET50 = ''RESNET50''"
| "str_ModelSwitch RESNET_BASIC = ''RESNET_BASIC''"
| "str_ModelSwitch RESNET_BOTTLENECK = ''RESNET_BOTTLENECK''"

fun str_ActivationSwitch :: "ActivationSwitch \<Rightarrow> string" where
  "str_ActivationSwitch SOFTPLUS_B_01 = ''SOFTPLUS_B_01''"
| "str_ActivationSwitch SOFTPLUS_B_1 = ''SOFTPLUS_B_1''"
| "str_ActivationSwitch SOFTPLUS_B_2 = ''SOFTPLUS_B_2''"
| "str_ActivationSwitch SOFTPLUS_B100 = ''SOFTPLUS_B100''"
| "str_ActivationSwitch SOFTPLUS_B10 = ''SOFTPLUS_B10''"
| "str_ActivationSwitch SOFTPLUS_B7 = ''SOFTPLUS_B7''"
| "str_ActivationSwitch SOFTPLUS_B5 = ''SOFTPLUS_B5''"
| "str_ActivationSwitch SOFTPLUS_B3 = ''SOFTPLUS_B3''"
| "str_ActivationSwitch SOFTPLUS_B1 = ''SOFTPLUS_B1''"
| "str_ActivationSwitch LEAKY_RELU = ''LEAKY_RELU''"
| "str_ActivationSwitch RELU = ''RELU''"

fun str_DatasetSwitch :: "DatasetSwitch \<Rightarrow> string" where
  "str_DatasetSwitch CIFAR10 = ''CIFAR10''"
| "str_DatasetSwitch MNIST = ''MNIST''"
| "str_DatasetSwitch IMAGENETTE = ''IMAGENETTE''"
| "str_DatasetSwitch FASHION_MNIST = ''FASHION_MNIST''"
| "str_DatasetSwitch GRADS = ''GRADS''"

section \<open>Python's string operations used by the naming functions\<close>

text \<open>\<open>str\<close> of a Python integer: its decimal digits, with a leading minus sign below zero.\<close>

definition digit :: "nat \<Rightarrow> char" where
  "digit n = ''0123456789'' ! n"

fun str_nat :: "nat \<Rightarrow> string" where
  "str_nat n = (if n < 10 then [digit n] else str_nat (n div 10) @ [digit (n mod 10)])"

declare str_nat.simps [simp del]

definition str_int :: "int \<Rightarrow> string" where
  "str_int i = (if i < 0 then CHR ''-'' # str_nat (nat (- i)) else str_nat (nat i))"

text \<open>The number that a string of decimal digits denotes (\<open>int(s)\<close>).\<close>

definition decimal_value :: "string \<Rightarrow> nat" where
  "decimal_value s = foldl (\<lambda>value c. 10 * value + (of_char c - 48)) 0 s"

text \<open>\<open>sep.join(xs)\<close>: the separator stands between consecutive items only.\<close>

fun join :: "string \<Rightarrow> string list \<Rightarrow> string" where
  "join sep [] = []"
| "join sep [x] = x"
| "join sep (x # y # ys) = x @ sep @ join sep (y # ys)"

text \<open>
  \<open>os.path.join(a, b)\<close> on a POSIX system: an absolute second component replaces the
  first; otherwise the two are concatenated, with a slash between them unless the first is
  empty or already ends in one.
\<close>

definition os_path_join :: "string \<Rightarrow> string \<Rightarrow> string" where
  "os_path_join a b =
     (if b \<noteq> [] \<and> hd b = CHR ''/'' then b
      else if a = [] \<or> last a = CHR ''/'' then a @ b
      else a @ ''/'' @ b)"

section \<open>Experiment identifier and checkpoint path (src/utils.py)\<close>

text \<open>
  The keyword arguments that \<open>get_experiment_prefix\<close> consumes form a record; its
  extension part is the \<open>**args\<close> that the function accepts and ignores. The type \<open>'f\<close>
  is the type of the regularisation strength, a Python float; its \<open>str\<close> is a parameter
  \<open>str_float\<close> of the naming functions.
\<close>

record 'f hyper =
  dataset :: DatasetSwitch
  model_name :: ModelSwitch
  layers :: "int list"
  activation :: ActivationSwitch
  seed :: int
  l2_reg :: 'f
  img_size :: int

definition EXPERIMENT_PREFIX_SEP :: string where
  "EXPERIMENT_PREFIX_SEP = ''::''"

definition get_experiment_prefix :: "('f \<Rightarrow> string) \<Rightarrow> ('f, 'm) hyper_scheme \<Rightarrow> string" where
  "get_experiment_prefix str_float r =
     (let name_list =
            [str_ModelSwitch (model_name r),
             join ''_'' (map str_int (layers r)),
             str_ActivationSwitch (activation r),
             str_int (seed r),
             str_float (l2_reg r),
             str_int (img_size r)]
      in os_path_join (str_DatasetSwitch (dataset r)) (join EXPERIMENT_PREFIX_SEP name_list))"

definition get_save_path :: "('f \<Rightarrow> string) \<Rightarrow> ('f, 'm) hyper_scheme \<Rightarrow> string" where
  "get_save_path str_float r =
     (let experiment_prefix = get_experiment_prefix str_float r
      in ''checkpoints/'' @ experiment_prefix @ ''.pt'')"

section \<open>Argument expander (submission/utils.py)\<close>

text \<open>
  \<open>itertools.product(*pools)\<close>, as the Python documentation defines it: starting from the
  single empty combination, each pool in turn extends every combination built so far by
  every one of its values.
\<close>

definition itertools_product :: "'a list list \<Rightarrow> 'a list list" where
  "itertools_product pools =
     foldl (\<lambda>result pool. concat (map (\<lambda>x. map (\<lambda>y. x @ [y]) pool) result)) [[]] pools"

text \<open>
  The keyword arguments \<open>**args\<close> are a dictionary in insertion order: a list of pairs of a
  parameter name and its value list. \<open>pd.DataFrame(list(product(*args.values())),
  columns=args.keys())\<close> has one row per combination; a row is the list of pairs of a column
  name and the combination's value in that column (\<open>to_dict(orient="records")\<close>).
\<close>

definition expand :: "(string \<times> 'v list) list \<Rightarrow> (string \<times> 'v) list list" where
  "expand args = map (\<lambda>combination. zip (map fst args) combination)
                     (itertools_product (map snd args))"

section \<open>Job dispatcher (submission/utils.py)\<close>

text \<open>
  The job function receives either the list of records (the local call) or one record (a
  job of the array). It returns a value or raises an exception of type \<open>'e\<close>.
\<close>

datatype 'row job_arg = RecordList "'row list" | OneRecord 'row

datatype 'e pyerr = IndexError | ValueError | Raised 'e

text \<open>What the dispatcher does besides returning: console output, the read of the
  operator's answer, and the calls to the executor and to the job function, in order.\<close>

datatype 'row event =
    Print string
  | PrintTime
  | PrintNunique "'row list"
  | PrintTotal nat
  | Input
  | AutoExecutor string
  | UpdateParameters int
  | Call "'row job_arg"
  | MapArray "'row list"
  | Result nat

text \<open>
  The executor's array submission, by its contract: one job per record, in order; a job's
  handle yields, when its result is requested, what the job function returns on that record,
  or raises the job's failure. A handle is represented by that outcome.
\<close>

definition map_array :: "('row job_arg \<Rightarrow> 'e + 'r) \<Rightarrow> 'row list \<Rightarrow> ('e + 'r) list" where
  "map_array func jobs_args = map (\<lambda>a. func (OneRecord a)) jobs_args"

text \<open>\<open>[job.result() for job in jobs]\<close>: the results are requested one after the other,
  and the first failure ends the loop. The first argument counts the handles done.\<close>

fun collect_results :: "nat \<Rightarrow> ('e + 'r) list \<Rightarrow> 'row event list \<times> ('e pyerr + 'r list)" where
  "collect_results i [] = ([], Inr [])"
| "collect_results i (job # jobs) =
     (case job of
        Inl e \<Rightarrow> ([Result i], Inl (Raised e))
      | Inr v \<Rightarrow>
          (case collect_results (Suc i) jobs of
             (out, Inl err) \<Rightarrow> (Result i # out, Inl err)
           | (out, Inr results) \<Rightarrow> (Result i # out, Inr (v # results))))"

text \<open>
  \<open>execute_job_submission\<close> returns the events it produced and either the exception that
  left it or its return value (\<open>None\<close> or the list of results). The operator's answer to
  the prompt is the parameter \<open>answer\<close>; the table \<open>args\<close> is the list of its rows.
\<close>

definition execute_job_submission ::
  "string \<Rightarrow> bool \<Rightarrow> int option \<Rightarrow> int \<Rightarrow> 'row list \<Rightarrow> ('row job_arg \<Rightarrow> 'e + 'r)
     \<Rightarrow> 'row event list \<times> ('e pyerr + 'r list option)" where
  "execute_job_submission answer block_main port timeout args func =
     (let jobs_args = args;
          out = [PrintNunique args, PrintTotal (length args)];
          out = out @ (if port \<noteq> None
                       then [Print ''Running only the first job because of the debug flag'']
                       else []);
          first = (if port \<noteq> None
                   then (case jobs_args of [] \<Rightarrow> Inl IndexError | j # _ \<Rightarrow> Inr [j])
                   else Inr jobs_args)
      in case first of
           Inl err \<Rightarrow> (out, Inl err)
         | Inr jobs_args \<Rightarrow>
             if length args = 0 then (out @ [Print ''No jobs to run exiting''], Inr None)
             else
               let out = out @ [Print ''Do you want to continue? [y/n]'', Input]
               in if answer \<noteq> ''y'' then (out @ [Print ''Aborted''], Inr None)
                  else
                    let out = out @ [Print ''submitting jobs'', AutoExecutor ''logs/%j'',
                                     UpdateParameters timeout]
                    in if port = Some 0 then
                         (let out = out @ [Print ''Running in locally'',
                                           Call (RecordList jobs_args)]
                          in case func (RecordList jobs_args) of
                               Inl e \<Rightarrow> (out, Inl (Raised e))
                             | Inr _ \<Rightarrow> (out, Inr None))
                       else
                         (let jobs = map_array func jobs_args;
                              out = out @ [MapArray jobs_args, Print ''Job submitted'']
                          in if block_main then
                               (case collect_results 0 jobs of
                                  (waited, Inl err) \<Rightarrow>
                                    (out @ [Print ''Waiting for job to finish''] @ waited,
                                     Inl err)
                                | (waited, Inr results) \<Rightarrow>
                                    (out @ [Print ''Waiting for job to finish''] @ waited
                                         @ [Print ''All jobs finished''],
                                     Inr (Some results)))
                             else (out, Inr None)))"

text \<open>Readings of a trace: the records handed to the job function or to the executor, the
  indices of the handles whose result was requested, the arguments of the direct calls of the
  job function, and whether the operator was asked.\<close>

fun dispatched :: "'row event list \<Rightarrow> 'row list" where
  "dispatched [] = []"
| "dispatched (Call (RecordList rs) # evs) = rs @ dispatched evs"
| "dispatched (Call (OneRecord r) # evs) = r # dispatched evs"
| "dispatched (MapArray rs # evs) = rs @ dispatched evs"
| "dispatched (_ # evs) = dispatched evs"

fun result_requests :: "'row event list \<Rightarrow> nat list" where
  "result_requests [] = []"
| "result_requests (Result i # evs) = i # result_requests evs"
| "result_requests (_ # evs) = result_requests evs"

fun local_calls :: "'row event list \<Rightarrow> 'row job_arg list" where
  "local_calls [] = []"
| "local_calls (Call x # evs) = x # local_calls evs"
| "local_calls (_ # evs) = local_calls evs"

definition prompted :: "'row event list \<Rightarrow> bool" where
  "prompted evs = (Input \<in> set evs)"

section \<open>Existence filter and submission (submission/utils.py)\<close>

text \<open>
  The file system is the set of the paths that exist; \<open>os.path.exists\<close> is membership.
  \<open>table[keep]\<close> keeps the rows at which the boolean column \<open>keep\<close> is true.
\<close>

definition os_path_exists :: "string set \<Rightarrow> string \<Rightarrow> bool" where
  "os_path_exists fs path = (path \<in> fs)"

definition boolean_index :: "'a list \<Rightarrow> bool list \<Rightarrow> 'a list" where
  "boolean_index table keep = map fst (filter snd (zip table keep))"

definition after_output ::
  "'row event list \<Rightarrow> 'row event list \<times> 'x \<Rightarrow> 'row event list \<times> 'x" where
  "after_output out run = (out @ fst run, snd run)"

text \<open>
  A row of the candidate table holds the columns of the hyperparameter grid: those that the
  naming functions consume and, in the record's extension, all others. Training also reads
  the column \<open>epochs\<close>. The submission functions add columns to a row: \<open>job_base\<close> holds
  the ones both add (the original row is the field \<open>columns\<close>), and each function extends
  it by its own.
\<close>

record 'f train_args = "'f hyper" +
  epochs :: int

record 'a job_base =
  columns :: 'a
  job_port :: "int option"
  job_block_main :: bool
  job_timeout :: int
  job_batch_size :: "int option"
  checkpoint_path :: string

record 'a training_job = "'a job_base" +
  tb_postfix :: string
  warmup_epochs :: int

record 'a grads_job = "'a job_base" +
  experiment_prefix :: string
  experiment_output_dir :: string

text \<open>
  \<open>table[column] = table.apply(f, axis=1)\<close>: on a table with rows the new column holds
  \<open>f\<close> of each row. On a table without rows \<open>apply\<close> returns a table instead of a
  column, and the assignment of that table (it has the several columns of the grid) to the
  one column raises \<open>ValueError\<close>.
\<close>

definition assign_apply :: "('a \<Rightarrow> 'b) \<Rightarrow> 'a list \<Rightarrow> 'e pyerr + 'b list" where
  "assign_apply f table = (if table = [] then Inl ValueError else Inr (map f table))"

text \<open>
  \<open>submit_training\<close>, from the expanded table \<open>args\<close> on. The first column assignment
  (line 29) fails on a table without rows, before anything is printed; the later ones act on
  a table with rows. The dictionary \<open>batch_size\<close> is a map (a missing activation gives no
  value), and \<open>scale_epochs\<close> is the float computation
  \<open>(epochs * warmup_epochs_ratio).astype(int)\<close> as a function of \<open>epochs\<close>. The job
  function \<open>training.main\<close> is the parameter \<open>func\<close>.
\<close>

definition submit_training ::
  "string set \<Rightarrow> ('f \<Rightarrow> string) \<Rightarrow> (('f, 'm) train_args_scheme training_job job_arg \<Rightarrow> 'e + 'r)
     \<Rightarrow> string \<Rightarrow> bool \<Rightarrow> int option \<Rightarrow> int \<Rightarrow> (ActivationSwitch \<rightharpoonup> int) \<Rightarrow> (int \<Rightarrow> int)
     \<Rightarrow> ('f, 'm) train_args_scheme list
     \<Rightarrow> ('f, 'm) train_args_scheme training_job event list \<times> ('e pyerr + 'r list option)" where
  "submit_training fs str_float func answer block_main port timeout batch_size scale_epochs args =
     (case assign_apply (get_experiment_prefix str_float) args of
        Inl err \<Rightarrow> ([], Inl err)
      | Inr tb \<Rightarrow>
          let paths = map (get_save_path str_float) args;
              checkpoint_exists = map (os_path_exists fs) paths;
              out = Print ''Checkpoints skipped because they do already exist''
                      # map Print (boolean_index paths checkpoint_exists);
              valid_args = boolean_index (zip args (zip tb paths)) (map Not checkpoint_exists);
              valid_args = map (\<lambda>(x, t, p).
                    \<lparr>columns = x, job_port = port, job_block_main = block_main,
                     job_timeout = timeout, job_batch_size = batch_size (activation x),
                     checkpoint_path = p, tb_postfix = t,
                     warmup_epochs = scale_epochs (epochs x)\<rparr>) valid_args
          in after_output out
               (execute_job_submission answer block_main port timeout valid_args func))"

text \<open>
  \<open>submit_grads\<close>, from the expanded table \<open>args\<close> on. The time is printed first; the
  columns \<open>port\<close>, \<open>block_main\<close>, \<open>timeout\<close> and \<open>batch_size\<close> are set without
  \<open>apply\<close>; the first assignment through \<open>apply\<close> (line 76, \<open>experiment_prefix\<close>)
  fails on a table without rows. The output root \<open>paths.LOCAL_OUTPUT_DIR\<close> is a
  parameter, and the job function \<open>grads.main\<close> is \<open>func\<close>.
\<close>

definition submit_grads ::
  "string set \<Rightarrow> ('f \<Rightarrow> string) \<Rightarrow> string \<Rightarrow> (('f, 'm) hyper_scheme grads_job job_arg \<Rightarrow> 'e + 'r)
     \<Rightarrow> string \<Rightarrow> bool \<Rightarrow> int option \<Rightarrow> int \<Rightarrow> (ActivationSwitch \<rightharpoonup> int)
     \<Rightarrow> ('f, 'm) hyper_scheme list
     \<Rightarrow> ('f, 'm) hyper_scheme grads_job event list \<times> ('e pyerr + 'r list option)" where
  "submit_grads fs str_float LOCAL_OUTPUT_DIR func answer block_main port timeout batch_size args =
     (case assign_apply (get_experiment_prefix str_float) args of
        Inl err \<Rightarrow> ([PrintTime], Inl err)
      | Inr prefixes \<Rightarrow>
          let args = map (\<lambda>(x, prefix).
                    \<lparr>columns = x, job_port = port, job_block_main = block_main,
                     job_timeout = timeout, job_batch_size = batch_size (activation x),
                     checkpoint_path = get_save_path str_float x,
                     experiment_prefix = prefix,
                     experiment_output_dir = os_path_join LOCAL_OUTPUT_DIR prefix\<rparr>)
                    (zip args prefixes);
              output_dir_exists = map (\<lambda>x. os_path_exists fs (experiment_output_dir x)) args;
              checkpoint_exists = map (\<lambda>x. os_path_exists fs (checkpoint_path x)) args;
              valid_ids = map2 (\<lambda>c d. c \<and> \<not> d) checkpoint_exists output_dir_exists;
              valid_args = boolean_index args valid_ids;
              out = [PrintTime, Print ''Checkpoints skipped:'']
                    @ map (\<lambda>x. Print (checkpoint_path x))
                          (boolean_index args (map Not checkpoint_exists))
                    @ [Print ''Output dirs skipped:'']
                    @ map (\<lambda>x. Print (experiment_output_dir x))
                          (boolean_index args output_dir_exists)
                    @ [Print ''Valid args:'']
                    @ map (\<lambda>x. Print (experiment_output_dir x)) (boolean_index args valid_ids)
          in after_output out
               (execute_job_submission answer block_main port timeout valid_args func))"

section \<open>Example rows\<close>

text \<open>Two rows used to run the definitions. The regularisation strength is written as the
  string that Python prints for it, so \<open>str_float\<close> is the identity there.\<close>

definition example_job :: "string hyper" where
  "example_job = \<lparr>dataset = MNIST, model_name = RESNET18, layers = [64, 128],
                   activation = RELU, seed = 0, l2_reg = ''0.01'', img_size = 32\<rparr>"

definition example_training_job :: "string train_args" where
  "example_training_job = \<lparr>dataset = MNIST, model_name = RESNET18, layers = [64, 128],
                   activation = RELU, seed = 0, l2_reg = ''0.01'', img_size = 32, epochs = 10\<rparr>"

section \<open>Facts about the string operations\<close>

lemma str_DatasetSwitch_shape:
  "str_DatasetSwitch d \<noteq> [] \<and> last (str_DatasetSwitch d) \<noteq> CHR ''/''
     \<and> CHR ''/'' \<notin> set (str_DatasetSwitch d)"
  by (cases d) simp_all

lemma str_ModelSwitch_shape:
  "str_ModelSwitch m \<noteq> [] \<and> hd (str_ModelSwitch m) \<noteq> CHR ''/''
     \<and> CHR '':'' \<notin> set (str_ModelSwitch m)"
  by (cases m) simp_all

lemma str_ActivationSwitch_free: "CHR '':'' \<notin> set (str_ActivationSwitch a)"
  by (cases a) simp_all

lemma str_ModelSwitch_inj: "str_ModelSwitch a = str_ModelSwitch b \<Longrightarrow> a = b"
  by (cases a; cases b; simp)

lemma str_ActivationSwitch_inj: "str_ActivationSwitch a = str_ActivationSwitch b \<Longrightarrow> a = b"
  by (cases a; cases b; simp)

lemma str_DatasetSwitch_inj: "str_DatasetSwitch a = str_DatasetSwitch b \<Longrightarrow> a = b"
  by (cases a; cases b; simp)

lemma below_ten: "n < 10 \<Longrightarrow> n \<in> {0, 1, 2, 3, 4, 5, 6, 7, 8, 9 :: nat}"
  by auto

lemma digit_in: "n < 10 \<Longrightarrow> digit n \<in> set ''0123456789''"
  by (drule below_ten) (auto simp: digit_def)

lemma digit_inj: "n < 10 \<Longrightarrow> m < 10 \<Longrightarrow> digit n = digit m \<Longrightarrow> n = m"
  by (drule below_ten, drule below_ten) (auto simp: digit_def)

lemma str_nat_not_Nil: "str_nat n \<noteq> []"
  by (subst str_nat.simps) simp

lemma set_str_nat: "set (str_nat n) \<subseteq> set ''0123456789''"
proof (induction n rule: str_nat.induct)
  case (1 n)
  show ?case
  proof (cases "n < 10")
    case True
    then show ?thesis using digit_in [of n] by (subst str_nat.simps) simp
  next
    case False
    have "digit (n mod 10) \<in> set ''0123456789''" by (rule digit_in) simp
    with False "1.IH" show ?thesis by (subst str_nat.simps) simp
  qed
qed

lemma str_nat_inj: "str_nat n = str_nat m \<Longrightarrow> n = m"
proof (induction n arbitrary: m rule: str_nat.induct)
  case (1 n)
  show ?case
  proof (cases "n < 10")
    case n: True
    show ?thesis
    proof (cases "m < 10")
      case True
      with n "1.prems" have "digit n = digit m"
        by (simp add: str_nat.simps [of n] str_nat.simps [of m])
      with n True show ?thesis by (rule digit_inj)
    next
      case False
      with n "1.prems" show ?thesis
        using str_nat_not_Nil [of "m div 10"]
        by (simp add: str_nat.simps [of n] str_nat.simps [of m])
    qed
  next
    case n: False
    show ?thesis
    proof (cases "m < 10")
      case True
      with n "1.prems" show ?thesis
        using str_nat_not_Nil [of "n div 10"]
        by (simp add: str_nat.simps [of n] str_nat.simps [of m])
    next
      case False
      with n "1.prems" have s: "str_nat (n div 10) = str_nat (m div 10)"
        and d: "digit (n mod 10) = digit (m mod 10)"
        by (simp_all add: str_nat.simps [of n] str_nat.simps [of m])
      from n s have "n div 10 = m div 10" by (rule "1.IH")
      moreover have "n mod 10 = m mod 10" by (rule digit_inj [OF _ _ d]) simp_all
      ultimately show ?thesis by (metis div_mult_mod_eq)
    qed
  qed
qed

lemma in_str_nat: "c \<in> set (str_nat n) \<Longrightarrow> c \<in> set ''0123456789''"
  using set_str_nat [of n] by (rule subsetD)

lemma in_str_int:
  "c \<in> set (str_int i) \<Longrightarrow> c = CHR ''-'' \<or> c \<in> set ''0123456789''"
proof (cases "i < 0")
  case True
  assume "c \<in> set (str_int i)"
  with True have "c = CHR ''-'' \<or> c \<in> set (str_nat (nat (- i)))"
    by (simp add: str_int_def)
  then show ?thesis using in_str_nat [of c "nat (- i)"] by blast
next
  case False
  assume "c \<in> set (str_int i)"
  with False have "c \<in> set (str_nat (nat i))"
    by (simp add: str_int_def)
  then show ?thesis using in_str_nat [of c "nat i"] by blast
qed

lemma str_int_not_Nil: "str_int i \<noteq> []"
  by (simp add: str_int_def str_nat_not_Nil)

lemma hd_str_nat: "hd (str_nat n) \<noteq> CHR ''-''"
proof
  assume h: "hd (str_nat n) = CHR ''-''"
  have "hd (str_nat n) \<in> set (str_nat n)"
    using str_nat_not_Nil [of n] by (rule hd_in_set)
  then have "hd (str_nat n) \<in> set ''0123456789''" by (rule in_str_nat)
  then show False unfolding h by simp
qed

lemma str_int_inj: "str_int i = str_int j \<Longrightarrow> i = j"
proof -
  assume eq: "str_int i = str_int j"
  show ?thesis
  proof (cases "i < 0")
    case i: True
    show ?thesis
    proof (cases "j < 0")
      case True
      with i eq have "str_nat (nat (- i)) = str_nat (nat (- j))" by (simp add: str_int_def)
      then have "nat (- i) = nat (- j)" by (rule str_nat_inj)
      with i True show ?thesis by simp
    next
      case False
      with i eq have "hd (str_nat (nat j)) = CHR ''-''"
        by (simp add: str_int_def) (metis list.sel(1))
      with hd_str_nat [of "nat j"] show ?thesis by simp
    qed
  next
    case i: False
    show ?thesis
    proof (cases "j < 0")
      case True
      with i eq have "hd (str_nat (nat i)) = CHR ''-''"
        by (simp add: str_int_def)
      with hd_str_nat [of "nat i"] show ?thesis by simp
    next
      case False
      with i eq have "str_nat (nat i) = str_nat (nat j)" by (simp add: str_int_def)
      then have "nat i = nat j" by (rule str_nat_inj)
      with i False show ?thesis by simp
    qed
  qed
qed

lemma str_int_free:
  "CHR '':'' \<notin> set (str_int i)" "CHR ''_'' \<notin> set (str_int i)"
proof -
  show "CHR '':'' \<notin> set (str_int i)"
  proof
    assume "CHR '':'' \<in> set (str_int i)"
    from in_str_int [OF this] show False by simp
  qed
  show "CHR ''_'' \<notin> set (str_int i)"
  proof
    assume "CHR ''_'' \<in> set (str_int i)"
    from in_str_int [OF this] show False by simp
  qed
qed

lemma split_at: "c \<notin> set a \<Longrightarrow> c \<notin> set b \<Longrightarrow> a @ c # r = b @ c # s \<Longrightarrow> a = b \<and> r = s"
proof (induction a arbitrary: b)
  case Nil
  then show ?case by (cases b) auto
next
  case (Cons x a)
  then show ?case by (cases b) auto
qed

lemma split_at_end:
  assumes "c \<notin> set r" and "c \<notin> set s" and "a @ c # c # r = b @ c # c # s"
  shows "a = b \<and> r = s"
proof -
  from assms(3) have "rev (a @ c # c # r) = rev (b @ c # c # s)" by (rule arg_cong)
  then have "rev r @ c # (c # rev a) = rev s @ c # (c # rev b)" by simp
  with assms(1,2) have "rev r = rev s \<and> c # rev a = c # rev b"
    by (intro split_at [of c]) simp_all
  then show ?thesis by simp
qed

lemma join_Cons: "join sep (x # xs) = (if xs = [] then x else x @ sep @ join sep xs)"
  by (cases xs) simp_all

lemma in_join:
  "c \<in> set (join sep xs) \<Longrightarrow> c \<in> set sep \<or> (\<exists>x \<in> set xs. c \<in> set x)"
  by (induction xs) (auto simp: join_Cons split: if_splits)

lemma join_inj:
  assumes "\<forall>x \<in> set xs. x \<noteq> [] \<and> c \<notin> set x"
    and "\<forall>y \<in> set ys. y \<noteq> [] \<and> c \<notin> set y"
    and "join [c] xs = join [c] ys"
  shows "xs = ys"
  using assms
proof (induction xs arbitrary: ys)
  case Nil
  then show ?case by (cases ys) (auto simp: join_Cons split: if_splits)
next
  case (Cons x xs)
  show ?case
  proof (cases ys)
    case Nil
    with Cons.prems show ?thesis by (auto simp: join_Cons split: if_splits)
  next
    case ys: (Cons y ys')
    from Cons.prems ys have x: "c \<notin> set x" and y: "c \<notin> set y" by simp_all
    show ?thesis
    proof (cases "xs = []")
      case xs: True
      show ?thesis
      proof (cases "ys' = []")
        case True
        with xs ys Cons.prems(3) show ?thesis by simp
      next
        case False
        with xs ys Cons.prems(3) have "x = y @ c # join [c] ys'" by (simp add: join_Cons)
        with x show ?thesis by simp
      qed
    next
      case xs: False
      show ?thesis
      proof (cases "ys' = []")
        case True
        with xs ys Cons.prems(3) have "y = x @ c # join [c] xs" by (simp add: join_Cons)
        with y show ?thesis by simp
      next
        case False
        with xs ys Cons.prems(3) have "x @ c # join [c] xs = y @ c # join [c] ys'"
          by (simp add: join_Cons)
        with x y have "x = y \<and> join [c] xs = join [c] ys'"
          by (rule split_at)
        then have "x = y" and "join [c] xs = join [c] ys'" by blast+
        moreover from Cons.prems ys have "\<forall>x \<in> set xs. x \<noteq> [] \<and> c \<notin> set x"
          and "\<forall>y \<in> set ys'. y \<noteq> [] \<and> c \<notin> set y" by simp_all
        ultimately show ?thesis using Cons.IH [of ys'] ys by simp
      qed
    qed
  qed
qed

lemma layers_inj:
  "join ''_'' (map str_int ks) = join ''_'' (map str_int ls) \<Longrightarrow> ks = ls"
proof -
  assume "join ''_'' (map str_int ks) = join ''_'' (map str_int ls)"
  moreover have "\<forall>x \<in> set (map str_int ns). x \<noteq> [] \<and> CHR ''_'' \<notin> set x" for ns
    by (auto simp: str_int_not_Nil str_int_free)
  ultimately have "map str_int ks = map str_int ls"
    by (intro join_inj [of _ "CHR ''_''"]) blast+
  moreover have "inj str_int" by (rule injI) (rule str_int_inj)
  ultimately show ?thesis by (simp add: inj_map_eq_map)
qed

lemma layers_free: "CHR '':'' \<notin> set (join ''_'' (map str_int ks))"
proof
  assume "CHR '':'' \<in> set (join ''_'' (map str_int ks))"
  from in_join [OF this] show False by (auto simp: str_int_free)
qed

lemma get_experiment_prefix_unfold:
  "get_experiment_prefix str_float r =
     str_DatasetSwitch (dataset r) @ CHR ''/'' #
     str_ModelSwitch (model_name r) @ CHR '':'' # CHR '':'' #
     join ''_'' (map str_int (layers r)) @ CHR '':'' # CHR '':'' #
     str_ActivationSwitch (activation r) @ CHR '':'' # CHR '':'' #
     str_int (seed r) @ CHR '':'' # CHR '':'' #
     str_float (l2_reg r) @ CHR '':'' # CHR '':'' #
     str_int (img_size r)"
proof -
  let ?rest = "join EXPERIMENT_PREFIX_SEP
     [str_ModelSwitch (model_name r), join ''_'' (map str_int (layers r)),
      str_ActivationSwitch (activation r), str_int (seed r), str_float (l2_reg r),
      str_int (img_size r)]"
  have rest: "?rest = str_ModelSwitch (model_name r) @ CHR '':'' # CHR '':'' #
     join ''_'' (map str_int (layers r)) @ CHR '':'' # CHR '':'' #
     str_ActivationSwitch (activation r) @ CHR '':'' # CHR '':'' #
     str_int (seed r) @ CHR '':'' # CHR '':'' #
     str_float (l2_reg r) @ CHR '':'' # CHR '':'' #
     str_int (img_size r)"
    by (simp add: EXPERIMENT_PREFIX_SEP_def)
  have "hd ?rest = hd (str_ModelSwitch (model_name r))" and "?rest \<noteq> []"
    using str_ModelSwitch_shape [of "model_name r"] unfolding rest by simp_all
  then have "os_path_join (str_DatasetSwitch (dataset r)) ?rest
      = str_DatasetSwitch (dataset r) @ ''/'' @ ?rest"
    using str_DatasetSwitch_shape [of "dataset r"] str_ModelSwitch_shape [of "model_name r"]
    by (simp add: os_path_join_def)
  then have "get_experiment_prefix str_float r = str_DatasetSwitch (dataset r) @ ''/'' @ ?rest"
    by (simp add: get_experiment_prefix_def Let_def)
  then show ?thesis
    by (simp only: rest) simp
qed

lemma str_int_64: "str_int 64 = ''64''" and str_int_128: "str_int 128 = ''128''"
  and str_int_0: "str_int 0 = ''0''" and str_int_32: "str_int 32 = ''32''"
  by (simp_all add: str_int_def str_nat.simps digit_def)

lemma of_char_digit: "n < 10 \<Longrightarrow> of_char (digit n) = 48 + n"
  by (drule below_ten) (auto simp: digit_def)

lemma decimal_value_snoc:
  "decimal_value (s @ [c]) = 10 * decimal_value s + (of_char c - 48)"
  by (simp add: decimal_value_def)

lemma decimal_value_str_nat: "decimal_value (str_nat n) = n"
proof (induction n rule: str_nat.induct)
  case (1 n)
  show ?case
  proof (cases "n < 10")
    case True
    then show ?thesis
      by (subst str_nat.simps) (simp add: decimal_value_def of_char_digit)
  next
    case False
    have "of_char (digit (n mod 10)) = 48 + n mod 10" by (rule of_char_digit) simp
    with False "1.IH" show ?thesis
      by (subst str_nat.simps) (simp add: decimal_value_snoc)
  qed
qed

lemma hd_str_nat_zero: "hd (str_nat n) = CHR ''0'' \<Longrightarrow> n = 0"
proof (induction n rule: str_nat.induct)
  case (1 n)
  show ?case
  proof (cases "n < 10")
    case True
    with "1.prems" have "digit n = digit 0"
      by (simp add: str_nat.simps [of n] digit_def)
    with True show ?thesis by (intro digit_inj) simp_all
  next
    case False
    with "1.prems" have "hd (str_nat (n div 10)) = CHR ''0''"
      using str_nat_not_Nil [of "n div 10"] by (simp add: str_nat.simps [of n])
    with False have "n div 10 = 0" by (rule "1.IH")
    with False show ?thesis by simp
  qed
qed

lemma join_append:
  "xs \<noteq> [] \<Longrightarrow> ys \<noteq> [] \<Longrightarrow> join sep (xs @ ys) = join sep xs @ sep @ join sep ys"
  by (induction xs) (simp_all add: join_Cons)

lemma str_int_1: "str_int 1 = ''1''" and str_int_minus_5: "str_int (- 5) = ''-5''"
  by (simp_all add: str_int_def str_nat.simps digit_def)

lemma example_prefix_seed_1:
  "get_experiment_prefix (\<lambda>s. s) (example_job\<lparr>seed := 1\<rparr>)
     = ''MNIST/RESNET18::64_128::RELU::1::0.01::32''"
  by (simp add: get_experiment_prefix_def example_job_def os_path_join_def
      EXPERIMENT_PREFIX_SEP_def str_int_64 str_int_128 str_int_1 str_int_32)

lemma example_prefix:
  "get_experiment_prefix (\<lambda>s. s) example_job = ''MNIST/RESNET18::64_128::RELU::0::0.01::32''"
  by (simp add: get_experiment_prefix_def example_job_def os_path_join_def
      EXPERIMENT_PREFIX_SEP_def str_int_64 str_int_128 str_int_0 str_int_32)

lemma example_training_prefix:
  "get_experiment_prefix (\<lambda>s. s) example_training_job
     = ''MNIST/RESNET18::64_128::RELU::0::0.01::32''"
  by (simp add: get_experiment_prefix_def example_training_job_def os_path_join_def
      EXPERIMENT_PREFIX_SEP_def str_int_64 str_int_128 str_int_0 str_int_32)

section \<open>The identifier\<close>

text \<open>
  Claim C6. For every record the identifier is the dataset name, a slash, and then the model
  name, the layer sizes joined by underscores, the activation name, the seed, the
  regularisation strength and the image size, in this order, with the separator \<open>::\<close>
  (which is not the underscore) between consecutive items. The checkpoint path is
  \<open>checkpoints/\<close>, the identifier, and \<open>.pt\<close>. The names are the members' names as the
  enumerations declare them. An integer is printed in decimal: below zero a minus sign and
  the digits of its absolute value; otherwise digits only, without a leading zero except for
  0 itself, whose value is the integer. A join of no item is empty, of one item the item,
  and the join of two non-empty lists put together is their joins with the separator
  between.
\<close>

theorem identifier_format:
  "get_experiment_prefix str_float r =
     str_DatasetSwitch (dataset r) @ ''/'' @
     str_ModelSwitch (model_name r) @ ''::'' @
     join ''_'' (map str_int (layers r)) @ ''::'' @
     str_ActivationSwitch (activation r) @ ''::'' @
     str_int (seed r) @ ''::'' @
     str_float (l2_reg r) @ ''::'' @
     str_int (img_size r)
   \<and> get_save_path str_float r = ''checkpoints/'' @ get_experiment_prefix str_float r @ ''.pt''
   \<and> EXPERIMENT_PREFIX_SEP = ''::'' \<and> EXPERIMENT_PREFIX_SEP \<noteq> ''_''
   \<and> map str_DatasetSwitch [CIFAR10, MNIST, IMAGENETTE, FASHION_MNIST, GRADS]
       = [''CIFAR10'', ''MNIST'', ''IMAGENETTE'', ''FASHION_MNIST'', ''GRADS'']
   \<and> map str_ModelSwitch
         [SIMPLE_CNN_DEPTH, SIMPLE_CNN, SIMPLE_CNN_BN, SIMPLE_CNN_SK, SIMPLE_CNN_SK_BN,
          RESNET18, RESNET34, RESNET50, RESNET_BASIC, RESNET_BOTTLENECK]
       = [''SIMPLE_CNN_DEPTH'', ''SIMPLE_CNN'', ''SIMPLE_CNN_BN'', ''SIMPLE_CNN_SK'',
          ''SIMPLE_CNN_SK_BN'', ''RESNET18'', ''RESNET34'', ''RESNET50'', ''RESNET_BASIC'',
          ''RESNET_BOTTLENECK'']
   \<and> map str_ActivationSwitch
         [SOFTPLUS_B_01, SOFTPLUS_B_1, SOFTPLUS_B_2, SOFTPLUS_B100, SOFTPLUS_B10,
          SOFTPLUS_B7, SOFTPLUS_B5, SOFTPLUS_B3, SOFTPLUS_B1, LEAKY_RELU, RELU]
       = [''SOFTPLUS_B_01'', ''SOFTPLUS_B_1'', ''SOFTPLUS_B_2'', ''SOFTPLUS_B100'',
          ''SOFTPLUS_B10'', ''SOFTPLUS_B7'', ''SOFTPLUS_B5'', ''SOFTPLUS_B3'', ''SOFTPLUS_B1'',
          ''LEAKY_RELU'', ''RELU'']
   \<and> str_int i \<noteq> []
   \<and> (i < 0 \<longrightarrow> str_int i = CHR ''-'' # str_int (- i))
   \<and> (0 \<le> i \<longrightarrow> set (str_int i) \<subseteq> set ''0123456789''
                \<and> int (decimal_value (str_int i)) = i
                \<and> (hd (str_int i) = CHR ''0'' \<longrightarrow> i = 0))
   \<and> join sep [] = [] \<and> join sep [x] = x
   \<and> (xs \<noteq> [] \<and> ys \<noteq> [] \<longrightarrow> join sep (xs @ ys) = join sep xs @ sep @ join sep ys)"
proof -
  have neg: "str_int i = CHR ''-'' # str_int (- i)" if "i < 0"
    using that by (simp add: str_int_def)
  have pos: "set (str_int i) \<subseteq> set ''0123456789''
                \<and> int (decimal_value (str_int i)) = i
                \<and> (hd (str_int i) = CHR ''0'' \<longrightarrow> i = 0)" if "0 \<le> i"
  proof -
    from that have s: "str_int i = str_nat (nat i)" by (simp add: str_int_def)
    have "hd (str_nat (nat i)) = CHR ''0'' \<longrightarrow> nat i = 0"
      using hd_str_nat_zero [of "nat i"] by blast
    with that show ?thesis
      unfolding s using set_str_nat [of "nat i"] by (simp add: decimal_value_str_nat)
  qed
  have jn: "join sep (xs @ ys) = join sep xs @ sep @ join sep ys" if "xs \<noteq> [] \<and> ys \<noteq> []"
    using that by (simp add: join_append)
  have fmt: "get_experiment_prefix str_float r =
     str_DatasetSwitch (dataset r) @ ''/'' @
     str_ModelSwitch (model_name r) @ ''::'' @
     join ''_'' (map str_int (layers r)) @ ''::'' @
     str_ActivationSwitch (activation r) @ ''::'' @
     str_int (seed r) @ ''::'' @
     str_float (l2_reg r) @ ''::'' @
     str_int (img_size r)
   \<and> get_save_path str_float r = ''checkpoints/'' @ get_experiment_prefix str_float r @ ''.pt''
   \<and> EXPERIMENT_PREFIX_SEP = ''::'' \<and> EXPERIMENT_PREFIX_SEP \<noteq> ''_''"
    by (simp add: get_experiment_prefix_unfold get_save_path_def EXPERIMENT_PREFIX_SEP_def)
  have names: "map str_DatasetSwitch [CIFAR10, MNIST, IMAGENETTE, FASHION_MNIST, GRADS]
       = [''CIFAR10'', ''MNIST'', ''IMAGENETTE'', ''FASHION_MNIST'', ''GRADS'']
   \<and> map str_ModelSwitch
         [SIMPLE_CNN_DEPTH, SIMPLE_CNN, SIMPLE_CNN_BN, SIMPLE_CNN_SK, SIMPLE_CNN_SK_BN,
          RESNET18, RESNET34, RESNET50, RESNET_BASIC, RESNET_BOTTLENECK]
       = [''SIMPLE_CNN_DEPTH'', ''SIMPLE_CNN'', ''SIMPLE_CNN_BN'', ''SIMPLE_CNN_SK'',
          ''SIMPLE_CNN_SK_BN'', ''RESNET18'', ''RESNET34'', ''RESNET50'', ''RESNET_BASIC'',
          ''RESNET_BOTTLENECK'']
   \<and> map str_ActivationSwitch
         [SOFTPLUS_B_01, SOFTPLUS_B_1, SOFTPLUS_B_2, SOFTPLUS_B100, SOFTPLUS_B10,
          SOFTPLUS_B7, SOFTPLUS_B5, SOFTPLUS_B3, SOFTPLUS_B1, LEAKY_RELU, RELU]
       = [''SOFTPLUS_B_01'', ''SOFTPLUS_B_1'', ''SOFTPLUS_B_2'', ''SOFTPLUS_B100'',
          ''SOFTPLUS_B10'', ''SOFTPLUS_B7'', ''SOFTPLUS_B5'', ''SOFTPLUS_B3'', ''SOFTPLUS_B1'',
          ''LEAKY_RELU'', ''RELU'']"
    by simp
  have base: "join sep [] = [] \<and> join sep [x] = x" by simp
  from fmt names str_int_not_Nil [of i] neg pos base jn show ?thesis by blast
qed

text \<open>
  An instance: the identifier and the checkpoint path of the example row, the decimal forms
  of 128 and of -5, and a join of two lists.
\<close>

theorem identifier_format_witness:
  "get_experiment_prefix (\<lambda>s. s) example_job = ''MNIST/RESNET18::64_128::RELU::0::0.01::32''
   \<and> get_save_path (\<lambda>s. s) example_job
       = ''checkpoints/MNIST/RESNET18::64_128::RELU::0::0.01::32.pt''
   \<and> (0::int) \<le> 128 \<and> str_int 128 = ''128'' \<and> int (decimal_value ''128'') = 128
   \<and> (- 5 :: int) < 0 \<and> str_int (- 5) = ''-5''
   \<and> [''64''] \<noteq> [] \<and> [''128''] \<noteq> []
   \<and> join ''_'' ([''64''] @ [''128'']) = ''64_128''"
proof -
  note t = identifier_format [of "\<lambda>s. s" example_job 128 "''_''" "''64''" "[''64'']" "[''128'']"]
  note u = identifier_format [of "\<lambda>s. s" example_job "- 5" "''_''" "''64''" "[''64'']" "[''128'']"]
  from t have "get_experiment_prefix (\<lambda>s. s) example_job
      = ''MNIST/RESNET18::64_128::RELU::0::0.01::32''"
    by (simp add: example_job_def str_int_64 str_int_128 str_int_0 str_int_32)
  moreover from t have "get_save_path (\<lambda>s. s) example_job
       = ''checkpoints/MNIST/RESNET18::64_128::RELU::0::0.01::32.pt''"
    by (simp add: example_job_def str_int_64 str_int_128 str_int_0 str_int_32)
  moreover from t have "int (decimal_value (str_int 128)) = 128" by simp
  moreover from u have "str_int (- 5) = CHR ''-'' # str_int 5" by simp
  moreover from t have "join ''_'' ([''64''] @ [''128'']) = ''64_128''" by simp
  ultimately show ?thesis
    by (simp add: str_int_128 str_int_def str_nat.simps digit_def)
qed

text \<open>
  Claim C5. The identifier is a function of the seven fields it consumes, and it determines
  them: two records have the same identifier exactly when they agree on the dataset, the
  model, the layers, the activation, the seed, the regularisation strength and the image
  size. So records that differ in one of these fields have different identifiers, and
  records that agree on all of them have the same identifier whatever their other fields
  hold (the two records may even have different other fields). Python prints different
  floats differently; this is the hypothesis on \<open>str_float\<close>.
\<close>

theorem identifier_injective:
  assumes "inj str_float"
  shows "get_experiment_prefix str_float r1 = get_experiment_prefix str_float r2
     \<longleftrightarrow> dataset r1 = dataset r2 \<and> model_name r1 = model_name r2 \<and> layers r1 = layers r2
         \<and> activation r1 = activation r2 \<and> seed r1 = seed r2 \<and> l2_reg r1 = l2_reg r2
         \<and> img_size r1 = img_size r2"
proof
  assume "get_experiment_prefix str_float r1 = get_experiment_prefix str_float r2"
  then have "str_DatasetSwitch (dataset r1) @ CHR ''/'' #
     str_ModelSwitch (model_name r1) @ CHR '':'' # CHR '':'' #
     join ''_'' (map str_int (layers r1)) @ CHR '':'' # CHR '':'' #
     str_ActivationSwitch (activation r1) @ CHR '':'' # CHR '':'' #
     str_int (seed r1) @ CHR '':'' # CHR '':'' #
     str_float (l2_reg r1) @ CHR '':'' # CHR '':'' #
     str_int (img_size r1)
   = str_DatasetSwitch (dataset r2) @ CHR ''/'' #
     str_ModelSwitch (model_name r2) @ CHR '':'' # CHR '':'' #
     join ''_'' (map str_int (layers r2)) @ CHR '':'' # CHR '':'' #
     str_ActivationSwitch (activation r2) @ CHR '':'' # CHR '':'' #
     str_int (seed r2) @ CHR '':'' # CHR '':'' #
     str_float (l2_reg r2) @ CHR '':'' # CHR '':'' #
     str_int (img_size r2)"
    by (simp only: get_experiment_prefix_unfold)
  then have d: "str_DatasetSwitch (dataset r1) = str_DatasetSwitch (dataset r2)"
    and 1: "str_ModelSwitch (model_name r1) @ CHR '':'' # CHR '':'' #
     join ''_'' (map str_int (layers r1)) @ CHR '':'' # CHR '':'' #
     str_ActivationSwitch (activation r1) @ CHR '':'' # CHR '':'' #
     str_int (seed r1) @ CHR '':'' # CHR '':'' #
     str_float (l2_reg r1) @ CHR '':'' # CHR '':'' #
     str_int (img_size r1)
   = str_ModelSwitch (model_name r2) @ CHR '':'' # CHR '':'' #
     join ''_'' (map str_int (layers r2)) @ CHR '':'' # CHR '':'' #
     str_ActivationSwitch (activation r2) @ CHR '':'' # CHR '':'' #
     str_int (seed r2) @ CHR '':'' # CHR '':'' #
     str_float (l2_reg r2) @ CHR '':'' # CHR '':'' #
     str_int (img_size r2)"
    using split_at [of "CHR ''/''" "str_DatasetSwitch (dataset r1)" "str_DatasetSwitch (dataset r2)"]
      str_DatasetSwitch_shape [of "dataset r1"] str_DatasetSwitch_shape [of "dataset r2"]
    by blast+
  from 1 have m: "str_ModelSwitch (model_name r1) = str_ModelSwitch (model_name r2)"
    and 2: "join ''_'' (map str_int (layers r1)) @ CHR '':'' # CHR '':'' #
     str_ActivationSwitch (activation r1) @ CHR '':'' # CHR '':'' #
     str_int (seed r1) @ CHR '':'' # CHR '':'' #
     str_float (l2_reg r1) @ CHR '':'' # CHR '':'' #
     str_int (img_size r1)
   = join ''_'' (map str_int (layers r2)) @ CHR '':'' # CHR '':'' #
     str_ActivationSwitch (activation r2) @ CHR '':'' # CHR '':'' #
     str_int (seed r2) @ CHR '':'' # CHR '':'' #
     str_float (l2_reg r2) @ CHR '':'' # CHR '':'' #
     str_int (img_size r2)"
    using split_at [of "CHR '':''" "str_ModelSwitch (model_name r1)" "str_ModelSwitch (model_name r2)"]
      str_ModelSwitch_shape [of "model_name r1"] str_ModelSwitch_shape [of "model_name r2"]
    by blast+
  from 2 have l: "join ''_'' (map str_int (layers r1)) = join ''_'' (map str_int (layers r2))"
    and 3: "str_ActivationSwitch (activation r1) @ CHR '':'' # CHR '':'' #
     str_int (seed r1) @ CHR '':'' # CHR '':'' #
     str_float (l2_reg r1) @ CHR '':'' # CHR '':'' #
     str_int (img_size r1)
   = str_ActivationSwitch (activation r2) @ CHR '':'' # CHR '':'' #
     str_int (seed r2) @ CHR '':'' # CHR '':'' #
     str_float (l2_reg r2) @ CHR '':'' # CHR '':'' #
     str_int (img_size r2)"
    using split_at [of "CHR '':''" "join ''_'' (map str_int (layers r1))"
        "join ''_'' (map str_int (layers r2))"]
      layers_free [of "layers r1"] layers_free [of "layers r2"]
    by blast+
  from 3 have a: "str_ActivationSwitch (activation r1) = str_ActivationSwitch (activation r2)"
    and 4: "str_int (seed r1) @ CHR '':'' # CHR '':'' #
     str_float (l2_reg r1) @ CHR '':'' # CHR '':'' #
     str_int (img_size r1)
   = str_int (seed r2) @ CHR '':'' # CHR '':'' #
     str_float (l2_reg r2) @ CHR '':'' # CHR '':'' #
     str_int (img_size r2)"
    using split_at [of "CHR '':''" "str_ActivationSwitch (activation r1)"
        "str_ActivationSwitch (activation r2)"]
      str_ActivationSwitch_free [of "activation r1"] str_ActivationSwitch_free [of "activation r2"]
    by blast+
  from 4 have s: "str_int (seed r1) = str_int (seed r2)"
    and 5: "str_float (l2_reg r1) @ CHR '':'' # CHR '':'' # str_int (img_size r1)
   = str_float (l2_reg r2) @ CHR '':'' # CHR '':'' # str_int (img_size r2)"
    using split_at [of "CHR '':''" "str_int (seed r1)" "str_int (seed r2)"]
      str_int_free(1) [of "seed r1"] str_int_free(1) [of "seed r2"]
    by blast+
  from 5 have f: "str_float (l2_reg r1) = str_float (l2_reg r2)"
    and i: "str_int (img_size r1) = str_int (img_size r2)"
    using split_at_end [of "CHR '':''" "str_int (img_size r1)" "str_int (img_size r2)"]
      str_int_free(1) [of "img_size r1"] str_int_free(1) [of "img_size r2"]
    by blast+
  from d m l a s f i assms
  show "dataset r1 = dataset r2 \<and> model_name r1 = model_name r2 \<and> layers r1 = layers r2
         \<and> activation r1 = activation r2 \<and> seed r1 = seed r2 \<and> l2_reg r1 = l2_reg r2
         \<and> img_size r1 = img_size r2"
    by (auto dest: str_DatasetSwitch_inj str_ModelSwitch_inj layers_inj str_ActivationSwitch_inj
        str_int_inj injD)
next
  assume "dataset r1 = dataset r2 \<and> model_name r1 = model_name r2 \<and> layers r1 = layers r2
         \<and> activation r1 = activation r2 \<and> seed r1 = seed r2 \<and> l2_reg r1 = l2_reg r2
         \<and> img_size r1 = img_size r2"
  then show "get_experiment_prefix str_float r1 = get_experiment_prefix str_float r2"
    by (simp add: get_experiment_prefix_def)
qed

text \<open>
  An instance: with the regularisation strength given as its printed form, changing the seed
  changes the identifier, and a record with an additional column has the identifier of the
  record without it.
\<close>

theorem identifier_injective_witness:
  "inj (\<lambda>s :: string. s)
   \<and> get_experiment_prefix (\<lambda>s. s) example_job
       \<noteq> get_experiment_prefix (\<lambda>s. s) (example_job\<lparr>seed := 1\<rparr>)
   \<and> get_experiment_prefix (\<lambda>s. s) example_job
       = get_experiment_prefix (\<lambda>s. s) example_training_job"
proof -
  have i: "inj (\<lambda>s :: string. s)" by (rule injI)
  from identifier_injective [OF i, of example_job "example_job\<lparr>seed := 1\<rparr>"]
  have "get_experiment_prefix (\<lambda>s. s) example_job
       \<noteq> get_experiment_prefix (\<lambda>s. s) (example_job\<lparr>seed := 1\<rparr>)"
    by (simp add: example_job_def)
  moreover from identifier_injective [OF i, of example_job example_training_job]
  have "get_experiment_prefix (\<lambda>s. s) example_job
       = get_experiment_prefix (\<lambda>s. s) example_training_job"
    by (simp add: example_job_def example_training_job_def)
  ultimately show ?thesis using i by blast
qed

section \<open>The argument expander\<close>

lemma append_snoc_fun: "(@) (a @ [x]) = (\<lambda>ys. a @ x # ys)"
  by (simp add: fun_eq_iff)

lemma product_step:
  "foldl (\<lambda>result pool. concat (map (\<lambda>x. map (\<lambda>y. x @ [y]) pool) result)) acc pools
     = concat (map (\<lambda>x. map (\<lambda>ys. x @ ys) (product_lists pools)) acc)"
proof (induction pools arbitrary: acc)
  case Nil
  show ?case by (induction acc) simp_all
next
  case (Cons pool pools)
  have "concat (map (\<lambda>x. map ((@) x) (product_lists pools))
                  (concat (map (\<lambda>x. map (\<lambda>y. x @ [y]) pool) acc)))
      = concat (map (\<lambda>x. map ((@) x) (product_lists (pool # pools))) acc)"
    by (induction acc) (simp_all add: map_concat comp_def append_snoc_fun)
  then show ?case by (simp add: Cons.IH)
qed

lemma itertools_product_product_lists: "itertools_product pools = product_lists pools"
proof -
  have "(@) [] = (\<lambda>ys :: 'a list. ys)" by (simp add: fun_eq_iff)
  then show ?thesis by (simp add: itertools_product_def product_step)
qed

lemma length_product_lists_prod:
  "length (product_lists xss) = prod_list (map length xss)"
  by (induction xss) (simp_all add: length_concat comp_def sum_list_triv)

lemma product_lists_positions:
  "product_lists xss
     = map (\<lambda>idx. map2 (\<lambda>xs i. xs ! i) xss idx)
           (product_lists (map (\<lambda>xs. [0..<length xs]) xss))"
proof (induction xss)
  case Nil
  show ?case by simp
next
  case (Cons xs xss)
  let ?PI = "product_lists (map (\<lambda>xs. [0..<length xs]) xss)"
  have "map (\<lambda>idx. map2 (\<lambda>xs i. xs ! i) (xs # xss) idx)
            (product_lists (map (\<lambda>xs. [0..<length xs]) (xs # xss)))
      = concat (map (\<lambda>i. map (Cons (xs ! i)) (map (\<lambda>idx. map2 (\<lambda>xs i. xs ! i) xss idx) ?PI))
                    [0..<length xs])"
    by (simp add: map_concat comp_def)
  also have "\<dots> = concat (map (\<lambda>i. map (Cons (xs ! i)) (product_lists xss)) [0..<length xs])"
    using Cons.IH by simp
  also have "\<dots> = concat (map (\<lambda>x. map (Cons x) (product_lists xss)) (map (\<lambda>i. xs ! i) [0..<length xs]))"
    by (simp add: comp_def)
  also have "\<dots> = product_lists (xs # xss)"
    by (simp only: map_nth product_lists.simps)
  finally show ?case by simp
qed

lemma expand_product_lists:
  "expand args = map (\<lambda>combination. zip (map fst args) combination) (product_lists (map snd args))"
  by (simp add: expand_def itertools_product_product_lists)

lemma product_lists_empty_pool: "[] \<in> set xss \<Longrightarrow> product_lists xss = []"
  by (induction xss) auto

lemma row_of_combination:
  "list_all2 (\<lambda>x ys. x \<in> set ys) combination (map snd args)
     \<Longrightarrow> list_all2 (\<lambda>(k, v) (k', vs). k = k' \<and> v \<in> set vs) (zip (map fst args) combination) args"
proof (induction args arbitrary: combination)
  case Nil
  then show ?case by simp
next
  case (Cons a args)
  then show ?case by (cases combination) (auto simp: case_prod_beta)
qed

lemma combination_of_row:
  "list_all2 (\<lambda>(k, v) (k', vs). k = k' \<and> v \<in> set vs) row args
     \<Longrightarrow> row = zip (map fst args) (map snd row)
         \<and> list_all2 (\<lambda>x ys. x \<in> set ys) (map snd row) (map snd args)"
  by (induction row args rule: list_all2_induct) auto

lemma in_set_expand:
  "row \<in> set (expand args)
     \<longleftrightarrow> list_all2 (\<lambda>(k, v) (k', vs). k = k' \<and> v \<in> set vs) row args"
proof
  assume "row \<in> set (expand args)"
  then obtain combination where "combination \<in> set (product_lists (map snd args))"
    and row: "row = zip (map fst args) combination"
    by (auto simp: expand_product_lists)
  then have "list_all2 (\<lambda>x ys. x \<in> set ys) combination (map snd args)"
    by (simp add: product_lists_set)
  then show "list_all2 (\<lambda>(k, v) (k', vs). k = k' \<and> v \<in> set vs) row args"
    unfolding row by (rule row_of_combination)
next
  assume "list_all2 (\<lambda>(k, v) (k', vs). k = k' \<and> v \<in> set vs) row args"
  from combination_of_row [OF this]
  have row: "row = zip (map fst args) (map snd row)"
    and "map snd row \<in> set (product_lists (map snd args))"
    by (simp_all add: product_lists_set)
  then show "row \<in> set (expand args)"
    unfolding expand_product_lists by (metis (no_types, lifting) image_eqI list.set_map)
qed

lemma distinct_expand:
  assumes "\<forall>(k, vs) \<in> set args. distinct vs"
  shows "distinct (expand args)"
proof -
  from assms have "distinct (product_lists (map snd args))"
    by (intro distinct_product_lists) auto
  moreover have "inj_on (\<lambda>combination. zip (map fst args) combination)
                   (set (product_lists (map snd args)))"
  proof (rule inj_onI)
    fix c1 c2
    assume "c1 \<in> set (product_lists (map snd args))" "c2 \<in> set (product_lists (map snd args))"
    then have "length c1 = length (map fst args)" "length c2 = length (map fst args)"
      by (simp_all add: in_set_product_lists_length)
    moreover assume "zip (map fst args) c1 = zip (map fst args) c2"
    ultimately show "c1 = c2"
      by (metis map_snd_zip)
  qed
  ultimately show ?thesis
    by (simp add: expand_product_lists distinct_map)
qed

lemma zip_pick:
  "zip (map fst args) (map2 (\<lambda>xs i. xs ! i) (map snd args) idx)
     = map2 (\<lambda>(k, vs) i. (k, vs ! i)) args idx"
proof (induction args arbitrary: idx)
  case Nil
  show ?case by simp
next
  case (Cons a args)
  then show ?case by (cases idx) (simp_all add: case_prod_beta)
qed

lemma expand_positions:
  "expand args
     = map (\<lambda>idx. map2 (\<lambda>(k, vs) i. (k, vs ! i)) args idx)
           (product_lists (map (\<lambda>(k, vs). [0..<length vs]) args))"
proof -
  have "map (\<lambda>xs. [0..<length xs]) (map snd args) = map (\<lambda>(k, vs). [0..<length vs]) args"
    by (simp add: case_prod_unfold)
  then show ?thesis
    unfolding expand_product_lists
    by (subst product_lists_positions) (simp only: map_map comp_def zip_pick)
qed

lemma expand_Cons:
  "expand ((k, vs) # args) = concat (map (\<lambda>v. map (\<lambda>row. (k, v) # row) (expand args)) vs)"
  by (simp add: expand_product_lists map_concat comp_def)

text \<open>
  Claim C4. For every mapping from parameter names to value lists the expander yields the
  cartesian product. The number of rows is the product of the lengths of the value lists. A
  row is produced exactly if it has the parameters as its columns, in their order, each with
  a value of that parameter's list. The rows are, in order, the selections at the tuples of
  positions in the value lists, and no tuple of positions occurs twice: every combination
  is produced exactly once. Hence the rows are pairwise different when no value list
  repeats a value. The first parameter varies slowest and the last fastest: the rows for
  each value of the first parameter are consecutive and repeat the expansion of the
  remaining parameters. An empty value list gives no row, and no error.
\<close>

theorem expand_is_cartesian_product:
  "length (expand args) = prod_list (map (\<lambda>(k, vs). length vs) args)
   \<and> (row \<in> set (expand args)
        \<longleftrightarrow> list_all2 (\<lambda>(k, v) (k', vs). k = k' \<and> v \<in> set vs) row args)
   \<and> expand args
        = map (\<lambda>idx. map2 (\<lambda>(k, vs) i. (k, vs ! i)) args idx)
              (product_lists (map (\<lambda>(k, vs). [0..<length vs]) args))
   \<and> distinct (product_lists (map (\<lambda>(k, vs). [0..<length vs]) args))
   \<and> ((\<forall>(k, vs) \<in> set args. distinct vs) \<longrightarrow> distinct (expand args))
   \<and> expand [] = [[]]
   \<and> expand ((k, vs) # args) = concat (map (\<lambda>v. map (\<lambda>row. (k, v) # row) (expand args)) vs)
   \<and> ((\<exists>k. (k, []) \<in> set args) \<longrightarrow> expand args = [])"
proof -
  have len: "length (expand args) = prod_list (map (\<lambda>(k, vs). length vs) args)"
    by (simp add: expand_product_lists length_product_lists_prod comp_def case_prod_unfold)
  have idx: "distinct (product_lists (map (\<lambda>(k, vs). [0..<length vs]) args))"
    by (rule distinct_product_lists) auto
  have nil: "expand [] = [[]]"
    by (simp add: expand_product_lists)
  have empty: "expand args = []" if "\<exists>k. (k, []) \<in> set args"
  proof -
    from that have "[] \<in> set (map snd args)" by force
    then show ?thesis by (simp add: expand_product_lists product_lists_empty_pool)
  qed
  from len in_set_expand [of row args] expand_positions [of args] idx distinct_expand [of args]
    nil expand_Cons [of k vs args] empty
  show ?thesis by blast
qed

text \<open>
  An instance: the grid of two models and two seeds gives four different rows, the seed
  varying fastest; with an empty seed list it gives none.
\<close>

theorem expand_is_cartesian_product_witness:
  "distinct [''A'', ''B''] \<and> distinct [''1'', ''2'']
   \<and> distinct (expand [(''model'', [''A'', ''B'']), (''seed'', [''1'', ''2''])])
   \<and> expand [(''model'', [''A'', ''B'']), (''seed'', [''1'', ''2''])]
       = [[(''model'', ''A''), (''seed'', ''1'')], [(''model'', ''A''), (''seed'', ''2'')],
          [(''model'', ''B''), (''seed'', ''1'')], [(''model'', ''B''), (''seed'', ''2'')]]
   \<and> (''seed'', []) \<in> set [(''model'', [''A'', ''B'']), (''seed'', [])]
   \<and> expand [(''model'', [''A'', ''B'']), (''seed'', [] :: string list)] = []"
proof -
  have d: "\<forall>(k, vs) \<in> set [(''model'', [''A'', ''B'']), (''seed'', [''1'', ''2''])]. distinct vs"
    by simp
  have e: "\<exists>k. (k, []) \<in> set [(''model'', [''A'', ''B'']), (''seed'', [] :: string list)]"
    by (intro exI [of _ "''seed''"]) simp
  note t1 = expand_is_cartesian_product
      [of "[(''model'', [''A'', ''B'']), (''seed'', [''1'', ''2''])]" "[]" "''x''" "[]"]
  note t2 = expand_is_cartesian_product
      [of "[(''model'', [''A'', ''B'']), (''seed'', [] :: string list)]" "[]" "''x''" "[]"]
  from t1 d have "distinct (expand [(''model'', [''A'', ''B'']), (''seed'', [''1'', ''2''])])"
    by blast
  moreover from t2 e have "expand [(''model'', [''A'', ''B'']), (''seed'', [] :: string list)] = []"
    by blast
  moreover have "expand [(''model'', [''A'', ''B'']), (''seed'', [''1'', ''2''])]
       = [[(''model'', ''A''), (''seed'', ''1'')], [(''model'', ''A''), (''seed'', ''2'')],
          [(''model'', ''B''), (''seed'', ''1'')], [(''model'', ''B''), (''seed'', ''2'')]]"
    by (simp add: expand_def itertools_product_def)
  ultimately show ?thesis by simp
qed

section \<open>The dispatcher\<close>

lemma dispatched_append: "dispatched (xs @ ys) = dispatched xs @ dispatched ys"
  by (induction xs rule: dispatched.induct) simp_all

lemma result_requests_append:
  "result_requests (xs @ ys) = result_requests xs @ result_requests ys"
  by (induction xs rule: result_requests.induct) simp_all

lemma result_requests_map_Result: "result_requests (map Result ks) = ks"
  by (induction ks) simp_all

lemma local_calls_append: "local_calls (xs @ ys) = local_calls xs @ local_calls ys"
  by (induction xs rule: local_calls.induct) simp_all

lemma collect_results_only_requests:
  "collect_results i jobs = (out, res)
     \<Longrightarrow> dispatched out = [] \<and> Input \<notin> set out \<and> local_calls out = []"
  by (induction jobs arbitrary: i out res) (auto split: sum.splits prod.splits)

lemma upt_head: "[i..<Suc (i + n)] = i # [Suc i..<Suc (i + n)]"
  by (rule upt_conv_Cons) simp

lemma collect_results_all:
  "collect_results i (map Inr vs) = (map Result [i..<i + length vs], Inr vs)"
proof (induction vs arbitrary: i)
  case Nil
  show ?case by simp
next
  case (Cons v vs)
  have "[i..<i + length (v # vs)] = i # [Suc i..<Suc i + length vs]"
    using upt_head [of i "length vs"] by simp
  then show ?case by (simp add: Cons.IH del: upt_Suc)
qed

lemma collect_results_failure:
  "collect_results i (map Inr vs @ Inl e # later)
     = (map Result [i..<Suc (i + length vs)], Inl (Raised e))"
proof (induction vs arbitrary: i)
  case Nil
  show ?case by simp
next
  case (Cons v vs)
  have "[i..<Suc (i + length (v # vs))] = i # [Suc i..<Suc (Suc i + length vs)]"
    using upt_head [of i "Suc (length vs)"] by simp
  then show ?case by (simp add: Cons.IH del: upt_Suc)
qed

lemma remote_run:
  assumes "port \<noteq> Some 0"
    and "js = (if port = None then a # rest else [a])"
    and "collect_results 0 (map_array func js) = (waited, res)"
  shows "execute_job_submission ''y'' block_main port timeout (a # rest) func =
     ([PrintNunique (a # rest), PrintTotal (length (a # rest))]
        @ (if port \<noteq> None
           then [Print ''Running only the first job because of the debug flag''] else [])
        @ [Print ''Do you want to continue? [y/n]'', Input,
           Print ''submitting jobs'', AutoExecutor ''logs/%j'', UpdateParameters timeout,
           MapArray js, Print ''Job submitted'']
        @ (if block_main
           then Print ''Waiting for job to finish'' # waited
                  @ (case res of Inl err \<Rightarrow> [] | Inr results \<Rightarrow> [Print ''All jobs finished''])
           else []),
      if block_main
      then (case res of Inl err \<Rightarrow> Inl err | Inr results \<Rightarrow> Inr (Some results))
      else Inr None)"
  using assms by (cases port) (simp_all add: execute_job_submission_def Let_def split: sum.splits)

lemma dispatched_map_Print: "dispatched (map (\<lambda>x. Print (f x)) xs) = []"
  by (induction xs) simp_all

lemma dispatched_without_debug_flag:
  "dispatched (fst (execute_job_submission ''y'' block_main None timeout rows func)) = rows"
proof (cases rows)
  case Nil
  then show ?thesis by (simp add: execute_job_submission_def)
next
  case (Cons a rest)
  obtain waited res
    where c: "collect_results 0 (map_array func (a # rest)) = (waited :: 'a event list, res)"
    by (cases "collect_results 0 (map_array func (a # rest)) :: 'a event list \<times> _") blast
  have p: "None \<noteq> Some (0::int)"
    and js: "a # rest = (if (None :: int option) = None then a # rest else [a])" by simp_all
  note run = remote_run [OF p js c, of block_main timeout]
  from collect_results_only_requests [OF c] have "dispatched waited = []" by simp
  then show ?thesis
    unfolding Cons run by (simp add: dispatched_append split: sum.splits)
qed

lemma dispatched_execute_job_submission:
  "dispatched (fst (execute_job_submission answer block_main port timeout rows func))
     = (if answer = ''y'' then (if port = None then rows else take 1 rows) else [])"
proof (cases rows)
  case Nil
  then show ?thesis by (cases port) (simp_all add: execute_job_submission_def)
next
  case (Cons a rest)
  show ?thesis
  proof (cases "answer = ''y''")
    case False
    with Cons show ?thesis by (cases port) (simp_all add: execute_job_submission_def)
  next
    case y: True
    show ?thesis
    proof (cases port)
      case None
      with y show ?thesis by (simp add: dispatched_without_debug_flag)
    next
      case (Some p)
      show ?thesis
      proof (cases "p = 0")
        case True
        with y Some Cons show ?thesis
          by (simp add: execute_job_submission_def Let_def split: sum.splits)
      next
        case False
        obtain waited res
          where c: "collect_results 0 (map_array func [a]) = (waited :: 'a event list, res)"
          by (cases "collect_results 0 (map_array func [a]) :: 'a event list \<times> _") blast
        from False Some have p: "port \<noteq> Some 0"
          and js: "[a] = (if port = None then a # rest else [a])" by simp_all
        note run = remote_run [OF p js c, of block_main timeout]
        from collect_results_only_requests [OF c] have "dispatched waited = []" by simp
        with y Some Cons show ?thesis
          unfolding Cons y run by (simp add: dispatched_append split: sum.splits)
      qed
    qed
  qed
qed

text \<open>
  Claim C3. With an empty table and no debug flag, the dispatcher prints that there is no job
  and returns \<open>None\<close>. With an empty table and the debug flag set (any port, 0
  included), it raises \<open>IndexError\<close> instead: the first record is taken before the table
  is tested for emptiness. In both cases the operator is not asked and no job is created.
\<close>

theorem empty_table_raises_under_debug_flag:
  "execute_job_submission answer block_main None timeout [] func =
     ([PrintNunique [], PrintTotal 0, Print ''No jobs to run exiting''], Inr None)
   \<and> execute_job_submission answer block_main (Some p) timeout [] func =
     ([PrintNunique [], PrintTotal 0,
       Print ''Running only the first job because of the debug flag''], Inl IndexError)
   \<and> \<not> prompted (fst (execute_job_submission answer block_main port timeout [] func))
   \<and> dispatched (fst (execute_job_submission answer block_main port timeout [] func)) = []"
  by (cases port) (simp_all add: execute_job_submission_def prompted_def)

text \<open>
  Claim C7. In local mode (port 0), on a table with at least one row and the answer
  \<open>y\<close>, the dispatcher calls the job function once, directly, with the first record only,
  and submits nothing to the executor; the call's exception, if any, reaches the caller.
  The rest of the table is never handed over, however long it is.
\<close>

theorem local_mode_runs_first_record_only:
  "execute_job_submission ''y'' block_main (Some 0) timeout (a # rest) func =
     ([PrintNunique (a # rest), PrintTotal (length (a # rest)),
       Print ''Running only the first job because of the debug flag'',
       Print ''Do you want to continue? [y/n]'', Input,
       Print ''submitting jobs'', AutoExecutor ''logs/%j'', UpdateParameters timeout,
       Print ''Running in locally'', Call (RecordList [a])],
      (case func (RecordList [a]) of Inl e \<Rightarrow> Inl (Raised e) | Inr v \<Rightarrow> Inr None))
   \<and> dispatched (fst (execute_job_submission ''y'' block_main (Some 0) timeout (a # rest) func))
       = [a]"
  by (simp add: execute_job_submission_def split: sum.splits)

text \<open>
  Claim C9. Whenever the port is set, at most one record is dispatched, whatever the table,
  the answer and the blocking flag are. For a port other than 0 the one record goes to the
  executor's array submission: on a table with at least one row and the answer \<open>y\<close>,
  the array submitted is the first record alone.
\<close>

theorem debug_flag_dispatches_at_most_one:
  "length (dispatched (fst (execute_job_submission answer block_main (Some p) timeout args func)))
     \<le> 1
   \<and> (p \<noteq> 0 \<longrightarrow>
        dispatched (fst (execute_job_submission ''y'' block_main (Some p) timeout (a # rest) func))
          = [a]
        \<and> MapArray [a]
            \<in> set (fst (execute_job_submission ''y'' block_main (Some p) timeout (a # rest) func)))"
proof -
  have one: "length (dispatched (fst (execute_job_submission answer block_main (Some p) timeout args func))) \<le> 1"
  proof (cases args)
    case Nil
    then show ?thesis by (simp add: execute_job_submission_def)
  next
    case (Cons a rest)
    obtain out res where c: "collect_results 0 (map_array func [a]) = (out :: 'a event list, res)"
      by (cases "collect_results 0 (map_array func [a]) :: 'a event list \<times> _") blast
    from collect_results_only_requests [OF c] have "dispatched out = []" by simp
    with c Cons show ?thesis
      by (simp add: execute_job_submission_def dispatched_append Let_def
          split: sum.splits prod.splits)
  qed
  have remote: "dispatched (fst (execute_job_submission ''y'' block_main (Some p) timeout (a # rest) func)) = [a]
        \<and> MapArray [a] \<in> set (fst (execute_job_submission ''y'' block_main (Some p) timeout (a # rest) func))"
    if "p \<noteq> 0"
  proof -
    obtain out res where c: "collect_results 0 (map_array func [a]) = (out :: 'a event list, res)"
      by (cases "collect_results 0 (map_array func [a]) :: 'a event list \<times> _") blast
    from collect_results_only_requests [OF c] have "dispatched out = []" by simp
    with c that show ?thesis
      by (simp add: execute_job_submission_def dispatched_append Let_def
          split: sum.splits prod.splits)
  qed
  from one remote show ?thesis by blast
qed

text \<open>
  An instance: with port 5 and three rows, only the first row is submitted.
\<close>

theorem debug_flag_dispatches_at_most_one_witness:
  "(5::int) \<noteq> 0
   \<and> dispatched (fst (execute_job_submission ''y'' True (Some 5) 10 [1, 2, 3 :: nat]
        (\<lambda>x. Inr () :: unit + unit))) = [1]
   \<and> MapArray [1] \<in> set (fst (execute_job_submission ''y'' True (Some 5) 10 [1, 2, 3 :: nat]
        (\<lambda>x. Inr () :: unit + unit)))"
  using debug_flag_dispatches_at_most_one
    [of "''y''" True 5 10 "[1, 2, 3 :: nat]" "\<lambda>x. Inr () :: unit + unit" 1 "[2, 3]"]
  by simp

text \<open>
  Claim C8. In remote array mode (the port is not 0), on a table with at least one row and
  the answer \<open>y\<close>, the records dispatched are the whole table, or its first record when
  the port is set. Without the blocking flag the dispatcher returns \<open>None\<close> right after
  the submission and requests no result. With the blocking flag it requests the results in
  the order of submission: if every job succeeds it returns all results in that order; if a
  job fails, the failure reaches the caller when that job's result is requested, and no
  later result is requested.
\<close>

theorem remote_blocking_collects_in_order:
  assumes "port \<noteq> Some 0" and "args \<noteq> []"
  shows "let js = (if port = None then args else [hd args]);
             run = execute_job_submission ''y'' block_main port timeout args func
         in dispatched (fst run) = js
          \<and> (\<not> block_main \<longrightarrow>
                snd run = Inr None \<and> result_requests (fst run) = []
                \<and> last (fst run) = Print ''Job submitted'')
          \<and> (block_main \<and> map_array func js = map Inr vs \<longrightarrow>
                snd run = Inr (Some vs) \<and> result_requests (fst run) = [0..<length js])
          \<and> (block_main \<and> map_array func js = map Inr vs @ Inl e # later \<longrightarrow>
                snd run = Inl (Raised e)
                \<and> result_requests (fst run) = [0..<Suc (length vs)])"
proof -
  from assms(2) obtain a rest where args: "args = a # rest" by (cases args) auto
  define js where "js = (if port = None then a # rest else [a])"
  obtain waited res where c: "collect_results 0 (map_array func js) = (waited :: 'a event list, res)"
    by (cases "collect_results 0 (map_array func js) :: 'a event list \<times> _") blast
  note run = remote_run [OF assms(1) js_def c, of block_main timeout]
  from collect_results_only_requests [OF c] have d: "dispatched waited = []" by simp
  have 1: "dispatched (fst (execute_job_submission ''y'' block_main port timeout (a # rest) func)) = js"
    unfolding run by (simp add: dispatched_append d split: sum.splits)
  have 2: "snd (execute_job_submission ''y'' block_main port timeout (a # rest) func) = Inr None
      \<and> result_requests (fst (execute_job_submission ''y'' block_main port timeout (a # rest) func)) = []
      \<and> last (fst (execute_job_submission ''y'' block_main port timeout (a # rest) func)) = Print ''Job submitted''"
    if "\<not> block_main"
    unfolding run using that by (simp add: result_requests_append)
  have 3: "snd (execute_job_submission ''y'' block_main port timeout (a # rest) func) = Inr (Some vs)
      \<and> result_requests (fst (execute_job_submission ''y'' block_main port timeout (a # rest) func)) = [0..<length js]"
    if "block_main" and m: "map_array func js = map Inr vs"
  proof -
    have "length js = length vs"
      using arg_cong [OF m, of length] by (simp add: map_array_def)
    moreover have "waited = map Result [0..<length vs]" and "res = Inr vs"
      using c by (simp_all add: m collect_results_all)
    ultimately show ?thesis
      unfolding run using that(1)
      by (simp add: result_requests_append result_requests_map_Result)
  qed
  have 4: "snd (execute_job_submission ''y'' block_main port timeout (a # rest) func) = Inl (Raised e)
      \<and> result_requests (fst (execute_job_submission ''y'' block_main port timeout (a # rest) func)) = [0..<Suc (length vs)]"
    if "block_main" and m: "map_array func js = map Inr vs @ Inl e # later"
  proof -
    have "waited = map Result [0..<Suc (length vs)]" and "res = Inl (Raised e)"
      using c by (simp_all add: m collect_results_failure del: upt_Suc)
    then show ?thesis
      unfolding run using that(1)
      by (simp add: result_requests_append result_requests_map_Result del: upt_Suc)
  qed
  have js_eq: "(if port = None then args else [hd args]) = js"
    by (simp add: args js_def)
  show ?thesis
    unfolding Let_def js_eq unfolding args using 1 2 3 4 by blast
qed

text \<open>
  Three instances on a table of three rows: without the blocking flag; blocking, all jobs
  succeeding; blocking, the second job failing, where the third result is never requested.
\<close>

theorem remote_blocking_collects_in_order_witness:
  "(None :: int option) \<noteq> Some 0 \<and> [1, 2, 3 :: nat] \<noteq> []
   \<and> dispatched (fst (execute_job_submission ''y'' False None 10 [1, 2, 3 :: nat]
        (\<lambda>x. if x = OneRecord 2 then Inl () else Inr True))) = [1, 2, 3]
   \<and> snd (execute_job_submission ''y'' False None 10 [1, 2, 3 :: nat]
        (\<lambda>x. if x = OneRecord 2 then Inl () else Inr True)) = Inr None
   \<and> result_requests (fst (execute_job_submission ''y'' False None 10 [1, 2, 3 :: nat]
        (\<lambda>x. if x = OneRecord 2 then Inl () else Inr True))) = []
   \<and> map_array (\<lambda>x. Inr (x = OneRecord 2) :: unit + bool) [1, 2, 3 :: nat]
        = map Inr [False, True, False]
   \<and> snd (execute_job_submission ''y'' True None 10 [1, 2, 3 :: nat]
        (\<lambda>x. Inr (x = OneRecord 2) :: unit + bool)) = Inr (Some [False, True, False])
   \<and> result_requests (fst (execute_job_submission ''y'' True None 10 [1, 2, 3 :: nat]
        (\<lambda>x. Inr (x = OneRecord 2) :: unit + bool))) = [0, 1, 2]
   \<and> map_array (\<lambda>x. if x = OneRecord 2 then Inl () else Inr True) [1, 2, 3 :: nat]
        = map Inr [True] @ Inl () # [Inr True]
   \<and> snd (execute_job_submission ''y'' True None 10 [1, 2, 3 :: nat]
        (\<lambda>x. if x = OneRecord 2 then Inl () else Inr True)) = Inl (Raised ())
   \<and> result_requests (fst (execute_job_submission ''y'' True None 10 [1, 2, 3 :: nat]
        (\<lambda>x. if x = OneRecord 2 then Inl () else Inr True))) = [0, 1]"
proof -
  have p: "(None :: int option) \<noteq> Some 0" and n: "[1, 2, 3 :: nat] \<noteq> []" by simp_all
  have m2: "map_array (\<lambda>x. Inr (x = OneRecord 2) :: unit + bool) [1, 2, 3 :: nat]
            = map Inr [False, True, False]"
    by (simp add: map_array_def)
  have m3: "map_array (\<lambda>x. if x = OneRecord 2 then Inl () else Inr True) [1, 2, 3 :: nat]
            = map Inr [True] @ Inl () # [Inr True]"
    by (simp add: map_array_def)
  note a = remote_blocking_collects_in_order [OF p n, of False 10
      "\<lambda>x. if x = OneRecord 2 then Inl () else Inr True" "[]" "()" "[]"]
  note b = remote_blocking_collects_in_order [OF p n, of True 10
      "\<lambda>x. Inr (x = OneRecord 2) :: unit + bool" "[False, True, False]" "()" "[]"]
  note c = remote_blocking_collects_in_order [OF p n, of True 10
      "\<lambda>x. if x = OneRecord 2 then Inl () else Inr True" "[True]" "()" "[Inr True]"]
  have A: "dispatched (fst (execute_job_submission ''y'' False None 10 [1, 2, 3 :: nat]
        (\<lambda>x. if x = OneRecord 2 then Inl () else Inr True))) = [1, 2, 3]
   \<and> snd (execute_job_submission ''y'' False None 10 [1, 2, 3 :: nat]
        (\<lambda>x. if x = OneRecord 2 then Inl () else Inr True)) = Inr None
   \<and> result_requests (fst (execute_job_submission ''y'' False None 10 [1, 2, 3 :: nat]
        (\<lambda>x. if x = OneRecord 2 then Inl () else Inr True))) = []"
    using a by (simp add: Let_def)
  have B: "snd (execute_job_submission ''y'' True None 10 [1, 2, 3 :: nat]
        (\<lambda>x. Inr (x = OneRecord 2) :: unit + bool)) = Inr (Some [False, True, False])
   \<and> result_requests (fst (execute_job_submission ''y'' True None 10 [1, 2, 3 :: nat]
        (\<lambda>x. Inr (x = OneRecord 2) :: unit + bool))) = [0, 1, 2]"
    using b m2 by (simp add: Let_def upt_rec)
  have C: "snd (execute_job_submission ''y'' True None 10 [1, 2, 3 :: nat]
        (\<lambda>x. if x = OneRecord 2 then Inl () else Inr True)) = Inl (Raised ())
   \<and> result_requests (fst (execute_job_submission ''y'' True None 10 [1, 2, 3 :: nat]
        (\<lambda>x. if x = OneRecord 2 then Inl () else Inr True))) = [0, 1]"
    using c m3 by (simp add: Let_def)
  from p n A B C m2 m3 show ?thesis by blast
qed

text \<open>
  Claim C10. In local mode the job function is called once and its argument is the list that
  holds the first record; the outcome depends on the function's value at that list only. In
  remote array mode the dispatcher does not call the function itself; the executor applies
  it to each dispatched record separately, and with the blocking flag the results returned
  are the function's values at the single records. A list of records is never a record.
\<close>

theorem argument_shape_differs_between_modes:
  "local_calls (fst (execute_job_submission ''y'' block_main (Some 0) timeout (a # rest) func))
     = [RecordList [a]]
   \<and> snd (execute_job_submission ''y'' block_main (Some 0) timeout (a # rest) func)
     = (case func (RecordList [a]) of Inl e \<Rightarrow> Inl (Raised e) | Inr v \<Rightarrow> Inr None)
   \<and> (port \<noteq> Some 0 \<longrightarrow>
       (let js = (if port = None then a # rest else [a]);
            run = execute_job_submission ''y'' block_main port timeout (a # rest) func
        in local_calls (fst run) = [] \<and> MapArray js \<in> set (fst run)
         \<and> map_array func js = map (\<lambda>r. func (OneRecord r)) js
         \<and> (block_main \<and> (\<forall>r \<in> set js. func (OneRecord r) = Inr (g r)) \<longrightarrow>
               snd run = Inr (Some (map g js)))))
   \<and> RecordList [a] \<noteq> OneRecord r"
proof -
  have loc: "local_calls (fst (execute_job_submission ''y'' block_main (Some 0) timeout (a # rest) func))
     = [RecordList [a]]
   \<and> snd (execute_job_submission ''y'' block_main (Some 0) timeout (a # rest) func)
     = (case func (RecordList [a]) of Inl e \<Rightarrow> Inl (Raised e) | Inr v \<Rightarrow> Inr None)"
    by (simp add: execute_job_submission_def split: sum.splits)
  have rem: "local_calls (fst (execute_job_submission ''y'' block_main port timeout (a # rest) func)) = []
      \<and> MapArray js \<in> set (fst (execute_job_submission ''y'' block_main port timeout (a # rest) func))
      \<and> map_array func js = map (\<lambda>r. func (OneRecord r)) js
      \<and> (block_main \<and> (\<forall>r \<in> set js. func (OneRecord r) = Inr (g r)) \<longrightarrow>
               snd (execute_job_submission ''y'' block_main port timeout (a # rest) func)
                 = Inr (Some (map g js)))"
    if p: "port \<noteq> Some 0" and js: "js = (if port = None then a # rest else [a])" for js
  proof -
    obtain waited res where c: "collect_results 0 (map_array func js) = (waited :: 'a event list, res)"
      by (cases "collect_results 0 (map_array func js) :: 'a event list \<times> _") blast
    note run = remote_run [OF p js c, of block_main timeout]
    from collect_results_only_requests [OF c] have w: "local_calls waited = []" by simp
    have cs: "local_calls (fst (execute_job_submission ''y'' block_main port timeout (a # rest) func)) = []"
      unfolding run by (simp add: local_calls_append w split: sum.splits)
    have ma: "MapArray js \<in> set (fst (execute_job_submission ''y'' block_main port timeout (a # rest) func))"
      unfolding run by simp
    have res: "snd (execute_job_submission ''y'' block_main port timeout (a # rest) func)
                 = Inr (Some (map g js))"
      if "block_main" and all: "\<forall>r \<in> set js. func (OneRecord r) = Inr (g r)"
    proof -
      from all have "map_array func js = map Inr (map g js)"
        by (simp add: map_array_def)
      then have "collect_results 0 (map Inr (map g js)) = (waited, res)"
        using c by (simp only:)
      then have "res = Inr (map g js)"
        by (simp only: collect_results_all prod.inject)
      then show ?thesis unfolding run using that(1) by simp
    qed
    from cs ma res show ?thesis by (simp add: map_array_def)
  qed
  from loc rem show ?thesis by (simp add: Let_def)
qed

text \<open>
  An instance: a job function that accepts a single record and fails on a list succeeds on
  every row in remote mode.
\<close>

theorem argument_shape_differs_between_modes_witness:
  "(None :: int option) \<noteq> Some 0
   \<and> map (\<lambda>r. case OneRecord r of OneRecord k \<Rightarrow> Inr (k * 10)
                | RecordList ks \<Rightarrow> (Inl ''TypeError'' :: string + nat)) [1, 2, 3 :: nat]
       = map (\<lambda>r. Inr (r * 10)) [1, 2, 3]
   \<and> snd (execute_job_submission ''y'' True None 10 [1, 2, 3 :: nat]
        (\<lambda>x. case x of OneRecord k \<Rightarrow> Inr (k * 10) | RecordList ks \<Rightarrow> Inl ''TypeError''))
       = Inr (Some [10, 20, 30])
   \<and> snd (execute_job_submission ''y'' True (Some 0) 10 [1, 2, 3 :: nat]
        (\<lambda>x. case x of OneRecord k \<Rightarrow> Inr (k * 10) | RecordList ks \<Rightarrow> Inl ''TypeError''))
       = Inl (Raised ''TypeError'')"
proof -
  let ?f = "\<lambda>x :: nat job_arg.
    case x of OneRecord k \<Rightarrow> Inr (k * 10) | RecordList ks \<Rightarrow> (Inl ''TypeError'' :: string + nat)"
  note t = argument_shape_differs_between_modes
    [where block_main = True and port = None and a = "1 :: nat" and rest = "[2, 3]"
       and func = ?f and g = "\<lambda>r. r * 10" and timeout = 10 and r = 0]
  have p: "(None :: int option) \<noteq> Some 0" by simp
  have g: "\<forall>r \<in> set [1, 2, 3 :: nat]. ?f (OneRecord r) = Inr (r * 10)" by simp
  from t have "snd (execute_job_submission ''y'' True (Some 0) 10 [1, 2, 3 :: nat] ?f)
       = Inl (Raised ''TypeError'')"
    by simp
  moreover from t p g have "snd (execute_job_submission ''y'' True None 10 [1, 2, 3 :: nat] ?f)
       = Inr (Some [10, 20, 30])"
    by (simp add: Let_def)
  ultimately show ?thesis using p g by simp
qed

section \<open>The existence filter\<close>

lemma boolean_index_map: "boolean_index (map f xs) (map P xs) = map f (filter P xs)"
  by (induction xs) (simp_all add: boolean_index_def)

lemma zip3_map: "zip xs (zip (map f xs) (map g xs)) = map (\<lambda>x. (x, f x, g x)) xs"
  by (induction xs) simp_all

lemma zip_map_same: "zip (map f xs) (map g xs) = map (\<lambda>x. (f x, g x)) xs"
  by (induction xs) simp_all

lemma zip_map_right: "zip xs (map f xs) = map (\<lambda>x. (x, f x)) xs"
  by (induction xs) simp_all

lemma boolean_index_map2:
  "boolean_index (map f xs) (map2 (\<lambda>c d. c \<and> \<not> d) (map P xs) (map Q xs))
     = map f (filter (\<lambda>x. P x \<and> \<not> Q x) xs)"
  using boolean_index_map [of f xs "\<lambda>x. P x \<and> \<not> Q x"]
  by (simp add: zip_map_same comp_def)

lemma assign_apply_rows: "table \<noteq> [] \<Longrightarrow> assign_apply f table = Inr (map f table)"
  by (simp add: assign_apply_def)

lemma submit_training_run:
  assumes "args \<noteq> []"
  shows "submit_training fs str_float func answer block_main port timeout batch_size scale_epochs args =
     after_output
       (Print ''Checkpoints skipped because they do already exist''
          # map (\<lambda>x. Print (get_save_path str_float x))
                [x \<leftarrow> args. os_path_exists fs (get_save_path str_float x)])
       (execute_job_submission answer block_main port timeout
          (map (\<lambda>x. \<lparr>columns = x, job_port = port, job_block_main = block_main,
                      job_timeout = timeout, job_batch_size = batch_size (activation x),
                      checkpoint_path = get_save_path str_float x,
                      tb_postfix = get_experiment_prefix str_float x,
                      warmup_epochs = scale_epochs (epochs x)\<rparr>)
               [x \<leftarrow> args. \<not> os_path_exists fs (get_save_path str_float x)])
          func)"
proof -
  let ?P = "\<lambda>x. os_path_exists fs (get_save_path str_float x)"
  have skipped: "boolean_index (map (get_save_path str_float) args)
            (map (os_path_exists fs) (map (get_save_path str_float) args))
          = map (get_save_path str_float) (filter ?P args)"
    using boolean_index_map [of "get_save_path str_float" args ?P] by (simp add: comp_def)
  have valid: "boolean_index
          (zip args (zip (map (get_experiment_prefix str_float) args)
                         (map (get_save_path str_float) args)))
          (map Not (map (os_path_exists fs) (map (get_save_path str_float) args)))
        = map (\<lambda>x. (x, get_experiment_prefix str_float x, get_save_path str_float x))
              (filter (\<lambda>x. \<not> ?P x) args)"
    using boolean_index_map [of "\<lambda>x. (x, get_experiment_prefix str_float x, get_save_path str_float x)"
        args "\<lambda>x. \<not> ?P x"]
    by (simp add: zip3_map comp_def)
  show ?thesis
    unfolding submit_training_def assign_apply_rows [OF assms] sum.case Let_def skipped valid
    by (simp add: comp_def)
qed

lemma submit_training_dispatched:
  assumes "args \<noteq> []"
  shows "map columns (dispatched (fst (submit_training fs str_float func answer block_main port
                                        timeout batch_size scale_epochs args)))
     = (if answer = ''y''
        then (if port = None
              then [x \<leftarrow> args. \<not> os_path_exists fs (get_save_path str_float x)]
              else take 1 [x \<leftarrow> args. \<not> os_path_exists fs (get_save_path str_float x)])
        else [])"
  unfolding submit_training_run [OF assms]
  by (simp add: after_output_def dispatched_append dispatched_map_Print
      dispatched_execute_job_submission comp_def take_map)

lemma submit_grads_run:
  assumes "args \<noteq> []"
  shows "submit_grads fs str_float LOCAL_OUTPUT_DIR func answer block_main port timeout batch_size args =
     after_output
       ([PrintTime, Print ''Checkpoints skipped:'']
        @ map (\<lambda>x. Print (get_save_path str_float x))
              [x \<leftarrow> args. \<not> os_path_exists fs (get_save_path str_float x)]
        @ [Print ''Output dirs skipped:'']
        @ map (\<lambda>x. Print (os_path_join LOCAL_OUTPUT_DIR (get_experiment_prefix str_float x)))
              [x \<leftarrow> args. os_path_exists fs
                  (os_path_join LOCAL_OUTPUT_DIR (get_experiment_prefix str_float x))]
        @ [Print ''Valid args:'']
        @ map (\<lambda>x. Print (os_path_join LOCAL_OUTPUT_DIR (get_experiment_prefix str_float x)))
              [x \<leftarrow> args. os_path_exists fs (get_save_path str_float x)
                 \<and> \<not> os_path_exists fs
                      (os_path_join LOCAL_OUTPUT_DIR (get_experiment_prefix str_float x))])
       (execute_job_submission answer block_main port timeout
          (map (\<lambda>x. \<lparr>columns = x, job_port = port, job_block_main = block_main,
                      job_timeout = timeout, job_batch_size = batch_size (activation x),
                      checkpoint_path = get_save_path str_float x,
                      experiment_prefix = get_experiment_prefix str_float x,
                      experiment_output_dir =
                        os_path_join LOCAL_OUTPUT_DIR (get_experiment_prefix str_float x)\<rparr>)
               [x \<leftarrow> args. os_path_exists fs (get_save_path str_float x)
                  \<and> \<not> os_path_exists fs
                       (os_path_join LOCAL_OUTPUT_DIR (get_experiment_prefix str_float x))])
          func)"
  unfolding submit_grads_def assign_apply_rows [OF assms] sum.case Let_def
  by (simp add: comp_def zip_map_right boolean_index_map [of _ args, simplified comp_def]
      boolean_index_map2 [of _ args, simplified comp_def])

lemma submit_grads_dispatched:
  assumes "args \<noteq> []"
  shows "map columns (dispatched (fst (submit_grads fs str_float LOCAL_OUTPUT_DIR func answer
                                        block_main port timeout batch_size args)))
     = (if answer = ''y''
        then (if port = None
              then [x \<leftarrow> args. os_path_exists fs (get_save_path str_float x)
                      \<and> \<not> os_path_exists fs
                           (os_path_join LOCAL_OUTPUT_DIR (get_experiment_prefix str_float x))]
              else take 1 [x \<leftarrow> args. os_path_exists fs (get_save_path str_float x)
                      \<and> \<not> os_path_exists fs
                           (os_path_join LOCAL_OUTPUT_DIR (get_experiment_prefix str_float x))])
        else [])"
  unfolding submit_grads_run [OF assms]
  by (simp add: after_output_def dispatched_append dispatched_map_Print
      dispatched_execute_job_submission comp_def take_map)

text \<open>
  Not every job without a checkpoint is submitted: with the debug port 5 and two jobs
  without a checkpoint, only the first of them is. And on a table without rows training
  submission selects nothing: it raises \<open>ValueError\<close>.
\<close>

theorem training_debug_flag_submits_first_job_only:
  "[x \<leftarrow> [example_training_job, example_training_job\<lparr>seed := 1\<rparr>].
      \<not> os_path_exists {} (get_save_path (\<lambda>s. s) x)]
     = [example_training_job, example_training_job\<lparr>seed := 1\<rparr>]
   \<and> map columns (dispatched (fst (submit_training {} (\<lambda>s. s)
         (\<lambda>a. Inr () :: unit + unit) ''y'' False (Some 5) 10 Map.empty (\<lambda>e. e div 10)
         [example_training_job, example_training_job\<lparr>seed := 1\<rparr>])))
     = [example_training_job]
   \<and> submit_training {} (\<lambda>s. s) (\<lambda>a. Inr () :: unit + unit) ''y'' False None 10 Map.empty
         (\<lambda>e. e div 10) ([] :: string train_args list)
     = ([], Inl ValueError)"
proof -
  have "map columns (dispatched (fst (submit_training {} (\<lambda>s. s)
         (\<lambda>a. Inr () :: unit + unit) ''y'' False (Some 5) 10 Map.empty (\<lambda>e. e div 10)
         [example_training_job, example_training_job\<lparr>seed := 1\<rparr>])))
     = [example_training_job]"
    by (simp add: submit_training_dispatched os_path_exists_def)
  moreover have "submit_training {} (\<lambda>s. s) (\<lambda>a. Inr () :: unit + unit) ''y'' False None 10
         Map.empty (\<lambda>e. e div 10) ([] :: string train_args list)
     = ([], Inl ValueError)"
    by (simp add: submit_training_def assign_apply_def)
  ultimately show ?thesis by (simp add: os_path_exists_def)
qed

text \<open>
  Claim C2, amended. On a table with at least one row, training submission prints the
  checkpoint paths that exist and passes the rows of the other jobs, in table order, to the
  dispatcher: a job is skipped exactly if its checkpoint path exists. Of the jobs that are
  not skipped, all are submitted when no debug port is set and the operator answers
  \<open>y\<close>; only the first is when a debug port is set and the operator answers \<open>y\<close>; none
  is on any other answer.
\<close>

theorem training_submits_jobs_without_checkpoint:
  assumes "args \<noteq> []"
  shows "submit_training fs str_float func answer block_main port timeout batch_size scale_epochs args =
     after_output
       (Print ''Checkpoints skipped because they do already exist''
          # map (\<lambda>x. Print (get_save_path str_float x))
                [x \<leftarrow> args. os_path_exists fs (get_save_path str_float x)])
       (execute_job_submission answer block_main port timeout
          (map (\<lambda>x. \<lparr>columns = x, job_port = port, job_block_main = block_main,
                      job_timeout = timeout, job_batch_size = batch_size (activation x),
                      checkpoint_path = get_save_path str_float x,
                      tb_postfix = get_experiment_prefix str_float x,
                      warmup_epochs = scale_epochs (epochs x)\<rparr>)
               [x \<leftarrow> args. \<not> os_path_exists fs (get_save_path str_float x)])
          func)
   \<and> map columns (dispatched (fst (submit_training fs str_float func answer block_main port
                                        timeout batch_size scale_epochs args)))
     = (if answer = ''y''
        then (if port = None
              then [x \<leftarrow> args. \<not> os_path_exists fs (get_save_path str_float x)]
              else take 1 [x \<leftarrow> args. \<not> os_path_exists fs (get_save_path str_float x)])
        else [])"
  by (intro conjI submit_training_run submit_training_dispatched assms)

text \<open>
  Two instances without a debug port: a job without a checkpoint is submitted, and the same
  job is skipped once its checkpoint exists.
\<close>

theorem training_submits_jobs_without_checkpoint_witness:
  "[example_training_job] \<noteq> []
   \<and> map columns (dispatched (fst (submit_training {} (\<lambda>s. s)
         (\<lambda>a. Inr () :: unit + unit) ''y'' False None 10 Map.empty (\<lambda>e. e div 10)
         [example_training_job])))
     = [example_training_job]
   \<and> map columns (dispatched (fst (submit_training
         {''checkpoints/MNIST/RESNET18::64_128::RELU::0::0.01::32.pt''} (\<lambda>s. s)
         (\<lambda>a. Inr () :: unit + unit) ''y'' False None 10 Map.empty (\<lambda>e. e div 10)
         [example_training_job])))
     = []"
proof -
  have n: "[example_training_job] \<noteq> []" by simp
  from training_submits_jobs_without_checkpoint
    [OF n, of "{}" "\<lambda>s. s" "\<lambda>a. Inr () :: unit + unit" "''y''" False None 10 Map.empty
        "\<lambda>e. e div 10", THEN conjunct2]
    training_submits_jobs_without_checkpoint
    [OF n, of "{''checkpoints/MNIST/RESNET18::64_128::RELU::0::0.01::32.pt''}" "\<lambda>s. s"
        "\<lambda>a. Inr () :: unit + unit" "''y''" False None 10 Map.empty
        "\<lambda>e. e div 10", THEN conjunct2]
  show ?thesis
    by (simp add: example_training_prefix get_save_path_def os_path_exists_def)
qed

text \<open>
  Three inputs at which gradient submission differs from the statement that it submits
  every job with a checkpoint and without an output directory and reports as having an
  output directory the jobs that have a checkpoint too. The only job has an output directory
  and no checkpoint: no job has both, and yet its directory is printed after
  \<open>Output dirs skipped:\<close>. Two jobs have a checkpoint and no output directory, and the
  debug port is 5: only the first is submitted. The table has no rows: \<open>ValueError\<close> is
  raised after the time is printed.
\<close>

theorem grads_reports_output_dir_of_job_without_checkpoint:
  "[x \<leftarrow> [example_job].
      os_path_exists {''out/MNIST/RESNET18::64_128::RELU::0::0.01::32''}
        (os_path_join ''out'' (get_experiment_prefix (\<lambda>s. s) x))
      \<and> os_path_exists {''out/MNIST/RESNET18::64_128::RELU::0::0.01::32''}
          (get_save_path (\<lambda>s. s) x)] = []
   \<and> fst (submit_grads {''out/MNIST/RESNET18::64_128::RELU::0::0.01::32''} (\<lambda>s. s) ''out''
            (\<lambda>a. Inr () :: unit + unit) ''y'' False None 10 Map.empty [example_job])
     = [PrintTime, Print ''Checkpoints skipped:'',
        Print ''checkpoints/MNIST/RESNET18::64_128::RELU::0::0.01::32.pt'',
        Print ''Output dirs skipped:'',
        Print ''out/MNIST/RESNET18::64_128::RELU::0::0.01::32'',
        Print ''Valid args:'',
        PrintNunique [], PrintTotal 0, Print ''No jobs to run exiting'']
   \<and> [x \<leftarrow> [example_job, example_job\<lparr>seed := 1\<rparr>].
        os_path_exists {''checkpoints/MNIST/RESNET18::64_128::RELU::0::0.01::32.pt'',
                        ''checkpoints/MNIST/RESNET18::64_128::RELU::1::0.01::32.pt''}
          (get_save_path (\<lambda>s. s) x)
        \<and> \<not> os_path_exists {''checkpoints/MNIST/RESNET18::64_128::RELU::0::0.01::32.pt'',
                              ''checkpoints/MNIST/RESNET18::64_128::RELU::1::0.01::32.pt''}
              (os_path_join ''out'' (get_experiment_prefix (\<lambda>s. s) x))]
     = [example_job, example_job\<lparr>seed := 1\<rparr>]
   \<and> map columns (dispatched (fst (submit_grads
         {''checkpoints/MNIST/RESNET18::64_128::RELU::0::0.01::32.pt'',
          ''checkpoints/MNIST/RESNET18::64_128::RELU::1::0.01::32.pt''} (\<lambda>s. s) ''out''
         (\<lambda>a. Inr () :: unit + unit) ''y'' False (Some 5) 10 Map.empty
         [example_job, example_job\<lparr>seed := 1\<rparr>])))
     = [example_job]
   \<and> submit_grads {} (\<lambda>s. s) ''out'' (\<lambda>a. Inr () :: unit + unit) ''y'' False None 10
         Map.empty ([] :: string hyper list)
     = ([PrintTime], Inl ValueError)"
proof -
  have none: "[x \<leftarrow> [example_job].
      os_path_exists {''out/MNIST/RESNET18::64_128::RELU::0::0.01::32''}
        (os_path_join ''out'' (get_experiment_prefix (\<lambda>s. s) x))
      \<and> os_path_exists {''out/MNIST/RESNET18::64_128::RELU::0::0.01::32''}
          (get_save_path (\<lambda>s. s) x)] = []"
    by (simp add: example_prefix get_save_path_def os_path_exists_def)
  have trace: "fst (submit_grads {''out/MNIST/RESNET18::64_128::RELU::0::0.01::32''} (\<lambda>s. s)
            ''out'' (\<lambda>a. Inr () :: unit + unit) ''y'' False None 10 Map.empty [example_job])
     = [PrintTime, Print ''Checkpoints skipped:'',
        Print ''checkpoints/MNIST/RESNET18::64_128::RELU::0::0.01::32.pt'',
        Print ''Output dirs skipped:'',
        Print ''out/MNIST/RESNET18::64_128::RELU::0::0.01::32'',
        Print ''Valid args:'',
        PrintNunique [], PrintTotal 0, Print ''No jobs to run exiting'']"
    by (simp add: submit_grads_def assign_apply_def example_prefix get_save_path_def
        os_path_exists_def os_path_join_def boolean_index_def after_output_def
        execute_job_submission_def)
  have both: "[x \<leftarrow> [example_job, example_job\<lparr>seed := 1\<rparr>].
        os_path_exists {''checkpoints/MNIST/RESNET18::64_128::RELU::0::0.01::32.pt'',
                        ''checkpoints/MNIST/RESNET18::64_128::RELU::1::0.01::32.pt''}
          (get_save_path (\<lambda>s. s) x)
        \<and> \<not> os_path_exists {''checkpoints/MNIST/RESNET18::64_128::RELU::0::0.01::32.pt'',
                              ''checkpoints/MNIST/RESNET18::64_128::RELU::1::0.01::32.pt''}
              (os_path_join ''out'' (get_experiment_prefix (\<lambda>s. s) x))]
     = [example_job, example_job\<lparr>seed := 1\<rparr>]"
    by (simp add: example_prefix example_prefix_seed_1 get_save_path_def os_path_exists_def
        os_path_join_def)
  have first: "map columns (dispatched (fst (submit_grads
         {''checkpoints/MNIST/RESNET18::64_128::RELU::0::0.01::32.pt'',
          ''checkpoints/MNIST/RESNET18::64_128::RELU::1::0.01::32.pt''} (\<lambda>s. s) ''out''
         (\<lambda>a. Inr () :: unit + unit) ''y'' False (Some 5) 10 Map.empty
         [example_job, example_job\<lparr>seed := 1\<rparr>])))
     = [example_job]"
    by (simp add: submit_grads_dispatched example_prefix example_prefix_seed_1
        get_save_path_def os_path_exists_def os_path_join_def)
  have empty: "submit_grads {} (\<lambda>s. s) ''out'' (\<lambda>a. Inr () :: unit + unit) ''y'' False None 10
         Map.empty ([] :: string hyper list)
     = ([PrintTime], Inl ValueError)"
    by (simp add: submit_grads_def assign_apply_def)
  from none trace both first empty show ?thesis by (intro conjI)
qed

text \<open>
  Claim C1, amended. On a table with at least one row, gradient submission passes to the
  dispatcher exactly the rows whose checkpoint exists and whose output directory does not,
  in table order. It prints the checkpoint path of every job whose checkpoint is missing,
  and the output directory of every job whose output directory exists, whether or not that
  job's checkpoint exists. Of the jobs with a checkpoint and without an output directory,
  all are submitted when no debug port is set and the operator answers \<open>y\<close>; only the
  first is when a debug port is set and the operator answers \<open>y\<close>; none is on any other
  answer.
\<close>

theorem grads_submits_checkpoint_without_output_dir:
  assumes "args \<noteq> []"
  shows "submit_grads fs str_float LOCAL_OUTPUT_DIR func answer block_main port timeout batch_size args =
     after_output
       ([PrintTime, Print ''Checkpoints skipped:'']
        @ map (\<lambda>x. Print (get_save_path str_float x))
              [x \<leftarrow> args. \<not> os_path_exists fs (get_save_path str_float x)]
        @ [Print ''Output dirs skipped:'']
        @ map (\<lambda>x. Print (os_path_join LOCAL_OUTPUT_DIR (get_experiment_prefix str_float x)))
              [x \<leftarrow> args. os_path_exists fs
                  (os_path_join LOCAL_OUTPUT_DIR (get_experiment_prefix str_float x))]
        @ [Print ''Valid args:'']
        @ map (\<lambda>x. Print (os_path_join LOCAL_OUTPUT_DIR (get_experiment_prefix str_float x)))
              [x \<leftarrow> args. os_path_exists fs (get_save_path str_float x)
                 \<and> \<not> os_path_exists fs
                      (os_path_join LOCAL_OUTPUT_DIR (get_experiment_prefix str_float x))])
       (execute_job_submission answer block_main port timeout
          (map (\<lambda>x. \<lparr>columns = x, job_port = port, job_block_main = block_main,
                      job_timeout = timeout, job_batch_size = batch_size (activation x),
                      checkpoint_path = get_save_path str_float x,
                      experiment_prefix = get_experiment_prefix str_float x,
                      experiment_output_dir =
                        os_path_join LOCAL_OUTPUT_DIR (get_experiment_prefix str_float x)\<rparr>)
               [x \<leftarrow> args. os_path_exists fs (get_save_path str_float x)
                  \<and> \<not> os_path_exists fs
                       (os_path_join LOCAL_OUTPUT_DIR (get_experiment_prefix str_float x))])
          func)
   \<and> map columns (dispatched (fst (submit_grads fs str_float LOCAL_OUTPUT_DIR func answer
                                        block_main port timeout batch_size args)))
     = (if answer = ''y''
        then (if port = None
              then [x \<leftarrow> args. os_path_exists fs (get_save_path str_float x)
                      \<and> \<not> os_path_exists fs
                           (os_path_join LOCAL_OUTPUT_DIR (get_experiment_prefix str_float x))]
              else take 1 [x \<leftarrow> args. os_path_exists fs (get_save_path str_float x)
                      \<and> \<not> os_path_exists fs
                           (os_path_join LOCAL_OUTPUT_DIR (get_experiment_prefix str_float x))])
        else [])"
  by (intro conjI submit_grads_run submit_grads_dispatched assms)

text \<open>
  An instance without a debug port: a job with a checkpoint and without an output directory
  is submitted.
\<close>

theorem grads_submits_checkpoint_without_output_dir_witness:
  "[example_job] \<noteq> []
   \<and> map columns (dispatched (fst (submit_grads
         {''checkpoints/MNIST/RESNET18::64_128::RELU::0::0.01::32.pt''} (\<lambda>s. s) ''out''
         (\<lambda>a. Inr () :: unit + unit) ''y'' False None 10 Map.empty [example_job])))
     = [example_job]"
proof -
  have n: "[example_job] \<noteq> []" by simp
  from grads_submits_checkpoint_without_output_dir
    [OF n, of "{''checkpoints/MNIST/RESNET18::64_128::RELU::0::0.01::32.pt''}" "\<lambda>s. s" "''out''"
        "\<lambda>a. Inr () :: unit + unit" "''y''" False None 10 Map.empty, THEN conjunct2]
  show ?thesis
    by (simp add: example_prefix get_save_path_def os_path_exists_def os_path_join_def)
qed

end
